theory Spec2Isabelle
  imports Complex_Main
begin

section \<open>GLSL values\<close>

text \<open>
  Shader arithmetic is modelled over the reals: a GLSL \<open>highp float\<close> and a JavaScript
  number are both read as exact real numbers, so rounding of (half-)float textures is
  outside the model.  Decimal literals of the source are written as fractions
  (\<open>0.016 = 16/1000\<close>, \<open>0.0001 = 1/10000\<close>).
\<close>

datatype vec2 = Vec2 (v2x: real) (v2y: real)

datatype vec3 = Vec3 (v3x: real) (v3y: real) (v3z: real)

datatype vec4 = Vec4 (vx: real) (vy: real) (vz: real) (vw: real)

definition v2_add :: "vec2 \<Rightarrow> vec2 \<Rightarrow> vec2" where
  "v2_add a b = Vec2 (v2x a + v2x b) (v2y a + v2y b)"

definition v2_sub :: "vec2 \<Rightarrow> vec2 \<Rightarrow> vec2" where
  "v2_sub a b = Vec2 (v2x a - v2x b) (v2y a - v2y b)"

definition v2_mul :: "vec2 \<Rightarrow> vec2 \<Rightarrow> vec2" where
  "v2_mul a b = Vec2 (v2x a * v2x b) (v2y a * v2y b)"

definition v2_scale :: "real \<Rightarrow> vec2 \<Rightarrow> vec2" where
  "v2_scale c a = Vec2 (c * v2x a) (c * v2y a)"

definition v2_dot :: "vec2 \<Rightarrow> vec2 \<Rightarrow> real" where
  "v2_dot a b = v2x a * v2x b + v2y a * v2y b"

definition v2_length :: "vec2 \<Rightarrow> real" where
  "v2_length a = sqrt (v2_dot a a)"

definition v3_add :: "vec3 \<Rightarrow> vec3 \<Rightarrow> vec3" where
  "v3_add a b = Vec3 (v3x a + v3x b) (v3y a + v3y b) (v3z a + v3z b)"

definition v3_scale :: "real \<Rightarrow> vec3 \<Rightarrow> vec3" where
  "v3_scale c a = Vec3 (c * v3x a) (c * v3y a) (c * v3z a)"

definition v4_scale :: "real \<Rightarrow> vec4 \<Rightarrow> vec4" where
  "v4_scale c a = Vec4 (c * vx a) (c * vy a) (c * vz a) (c * vw a)"

definition v4_xy :: "vec4 \<Rightarrow> vec2" where
  "v4_xy a = Vec2 (vx a) (vy a)"

definition v4_xyz :: "vec4 \<Rightarrow> vec3" where
  "v4_xyz a = Vec3 (vx a) (vy a) (vz a)"

definition v4_mix :: "vec4 \<Rightarrow> vec4 \<Rightarrow> real \<Rightarrow> vec4" where
  \<comment> \<open>GLSL \<open>mix(a, b, t) = a * (1 - t) + b * t\<close>, componentwise\<close>
  "v4_mix a b t =
     Vec4 (vx a * (1 - t) + vx b * t) (vy a * (1 - t) + vy b * t)
          (vz a * (1 - t) + vz b * t) (vw a * (1 - t) + vw b * t)"


section \<open>Textures and sampling\<close>

text \<open>
  Every texture of the simulation is an RGBA texture created by \<open>createFBO\<close> with
  \<open>CLAMP_TO_EDGE\<close> wrapping and one filter for minification and magnification.
  The texels are stored row-major, row \<open>0\<close> first.
\<close>

datatype tex_filter = NEAREST | LINEAR

record texture =
  tex_width :: nat
  tex_height :: nat
  tex_filter :: tex_filter
  texels :: "vec4 list"

definition clamp_index :: "int \<Rightarrow> nat \<Rightarrow> nat" where
  \<comment> \<open>\<open>CLAMP_TO_EDGE\<close>: a texel index is clamped to \<open>[0, n - 1]\<close>\<close>
  "clamp_index i n = nat (max 0 (min i (int n - 1)))"

definition texel :: "texture \<Rightarrow> int \<Rightarrow> int \<Rightarrow> vec4" where
  "texel t i j =
     texels t ! (clamp_index j (tex_height t) * tex_width t + clamp_index i (tex_width t))"

definition texture2D :: "texture \<Rightarrow> vec2 \<Rightarrow> vec4" where
  \<comment> \<open>The GLSL built-in, as the OpenGL ES specification defines it for a clamped 2D
      texture: the normalised coordinate is scaled by the texture size; \<open>NEAREST\<close> takes
      the texel containing the point, \<open>LINEAR\<close> blends the four texels around it with
      the fractional parts of \<open>u - 1/2\<close> and \<open>v - 1/2\<close> as weights.\<close>
  "texture2D t uv =
     (let u = v2x uv * real (tex_width t);
          v = v2y uv * real (tex_height t)
      in case tex_filter t of
           NEAREST \<Rightarrow> texel t \<lfloor>u\<rfloor> \<lfloor>v\<rfloor>
         | LINEAR \<Rightarrow>
             (let i0 = \<lfloor>u - 1/2\<rfloor>; j0 = \<lfloor>v - 1/2\<rfloor>;
                  a = frac (u - 1/2); b = frac (v - 1/2)
              in v4_mix (v4_mix (texel t i0 j0) (texel t (i0 + 1) j0) a)
                        (v4_mix (texel t i0 (j0 + 1)) (texel t (i0 + 1) (j0 + 1)) a) b))"


section \<open>The vertex shader and the full-screen draw\<close>

record varyings =
  vUv :: vec2
  vL :: vec2
  vR :: vec2
  vT :: vec2
  vB :: vec2

definition baseVertexShader :: "vec2 \<Rightarrow> vec2 \<Rightarrow> varyings" where
  \<comment> \<open>\<open>baseVertexShader texelSize aPosition\<close>; the varyings are affine in \<open>aPosition\<close>,
      so their interpolated value at a fragment is the shader at the fragment's position\<close>
  "baseVertexShader texelSize aPosition =
     (let uv = Vec2 (v2x aPosition * (1/2) + 1/2) (v2y aPosition * (1/2) + 1/2)
      in \<lparr> vUv = uv,
           vL = v2_sub uv (Vec2 (v2x texelSize) 0),
           vR = v2_add uv (Vec2 (v2x texelSize) 0),
           vT = v2_add uv (Vec2 0 (v2y texelSize)),
           vB = v2_sub uv (Vec2 0 (v2y texelSize)) \<rparr>)"

definition fragPosition :: "nat \<Rightarrow> nat \<Rightarrow> nat \<Rightarrow> vec2" where
  \<comment> \<open>clip-space position of the centre of fragment \<open>k\<close> (row-major) of a \<open>w \<times> h\<close> viewport
      covered by the quad \<open>[-1, 1]\<^sup>2\<close>\<close>
  "fragPosition w h k =
     Vec2 (2 * (real (k mod w) + 1/2) / real w - 1)
          (2 * (real (k div w) + 1/2) / real h - 1)"

definition drawQuad :: "nat \<Rightarrow> nat \<Rightarrow> vec2 \<Rightarrow> (varyings \<Rightarrow> vec4) \<Rightarrow> vec4 list" where
  \<comment> \<open>\<open>gl.drawArrays(gl.TRIANGLES, 0, 6)\<close> on the quad: one fragment per pixel of the
      viewport\<close>
  "drawQuad w h texelSize frag =
     map (\<lambda>k. frag (baseVertexShader texelSize (fragPosition w h k))) [0 ..< w * h]"


section \<open>Fragment shaders\<close>

definition splatShader ::
  "texture \<Rightarrow> real \<Rightarrow> vec3 \<Rightarrow> vec2 \<Rightarrow> real \<Rightarrow> varyings \<Rightarrow> vec4" where
  "splatShader uTarget aspectRatio color point radius v =
     (let p = v2_sub (vUv v) point;
          p = Vec2 (v2x p * aspectRatio) (v2y p);
          splat = v3_scale (exp (- v2_dot p p / radius)) color;
          base = v4_xyz (texture2D uTarget (vUv v));
          s = v3_add base splat
      in Vec4 (v3x s) (v3y s) (v3z s) 1)"

definition advectionShader ::
  "texture \<Rightarrow> texture \<Rightarrow> vec2 \<Rightarrow> real \<Rightarrow> real \<Rightarrow> varyings \<Rightarrow> vec4" where
  "advectionShader uVelocity uSource texelSize dt dissipation v =
     (let coord = v2_sub (vUv v)
                    (v2_mul (v2_scale dt (v4_xy (texture2D uVelocity (vUv v)))) texelSize)
      in v4_scale dissipation (texture2D uSource coord))"

definition divergenceShader :: "texture \<Rightarrow> varyings \<Rightarrow> vec4" where
  "divergenceShader uVelocity v =
     (let L = vx (texture2D uVelocity (vL v));
          R = vx (texture2D uVelocity (vR v));
          T = vy (texture2D uVelocity (vT v));
          B = vy (texture2D uVelocity (vB v));
          dv = (1/2) * (R - L + T - B)
      in Vec4 dv 0 0 1)"

definition curlShader :: "texture \<Rightarrow> varyings \<Rightarrow> vec4" where
  "curlShader uVelocity v =
     (let L = vy (texture2D uVelocity (vL v));
          R = vy (texture2D uVelocity (vR v));
          T = vx (texture2D uVelocity (vT v));
          B = vx (texture2D uVelocity (vB v));
          curl = R - L - T + B
      in Vec4 ((1/2) * curl) 0 0 1)"

definition vorticityShader ::
  "texture \<Rightarrow> texture \<Rightarrow> real \<Rightarrow> real \<Rightarrow> varyings \<Rightarrow> vec4" where
  "vorticityShader uVelocity uCurl curl dt v =
     (let L = vx (texture2D uCurl (vL v));
          R = vx (texture2D uCurl (vR v));
          T = vx (texture2D uCurl (vT v));
          B = vx (texture2D uCurl (vB v));
          C = vx (texture2D uCurl (vUv v));
          force = v2_scale (1/2) (Vec2 (\<bar>T\<bar> - \<bar>B\<bar>) (\<bar>R\<bar> - \<bar>L\<bar>));
          force = v2_scale (1 / (v2_length force + 1/10000)) force;
          force = v2_scale (curl * C) force;
          force = Vec2 (v2x force) (v2y force * (- 1));
          velocity = v4_xy (texture2D uVelocity (vUv v));
          velocity = v2_add velocity (v2_scale dt force)
      in Vec4 (v2x velocity) (v2y velocity) 0 1)"

definition pressureShader :: "texture \<Rightarrow> texture \<Rightarrow> varyings \<Rightarrow> vec4" where
  "pressureShader uPressure uDivergence v =
     (let L = vx (texture2D uPressure (vL v));
          R = vx (texture2D uPressure (vR v));
          T = vx (texture2D uPressure (vT v));
          B = vx (texture2D uPressure (vB v));
          divergence = vx (texture2D uDivergence (vUv v));
          pressure = (L + R + B + T - divergence) * (1/4)
      in Vec4 pressure 0 0 1)"

definition gradientSubtractShader :: "texture \<Rightarrow> texture \<Rightarrow> varyings \<Rightarrow> vec4" where
  "gradientSubtractShader uPressure uVelocity v =
     (let L = vx (texture2D uPressure (vL v));
          R = vx (texture2D uPressure (vR v));
          T = vx (texture2D uPressure (vT v));
          B = vx (texture2D uPressure (vB v));
          velocity = v4_xy (texture2D uVelocity (vUv v));
          velocity = v2_sub velocity (Vec2 (R - L) (T - B))
      in Vec4 (v2x velocity) (v2y velocity) 0 1)"

section \<open>Framebuffer objects and the GL state\<close>

text \<open>
  The GL context is a store of textures addressed by the handles \<open>gl.createTexture\<close>
  returns, the counter of the next fresh handle, and the \<open>BLEND\<close> capability.
  A framebuffer object of the simulation (\<open>createFBO\<close>) is a JavaScript object holding
  the handle of its texture and its size.
\<close>

record gl_state =
  gl_textures :: "nat \<Rightarrow> texture"
  gl_next :: nat
  gl_blend :: bool

record fbo =
  fbo_texture :: nat
  fbo_width :: nat
  fbo_height :: nat

definition createFBO :: "int \<Rightarrow> int \<Rightarrow> tex_filter \<Rightarrow> gl_state \<Rightarrow> fbo \<times> gl_state" where
  \<comment> \<open>\<open>texImage2D(..., null)\<close> and \<open>gl.clear\<close> with the default clear colour leave every
      texel \<open>(0, 0, 0, 0)\<close>\<close>
  "createFBO width height param g =
     (let tx = gl_next g;
          w = nat width; h = nat height
      in (\<lparr> fbo_texture = tx, fbo_width = w, fbo_height = h \<rparr>,
          g\<lparr> gl_textures := (gl_textures g)
                 (tx := \<lparr> tex_width = w, tex_height = h, tex_filter = param,
                           texels = replicate (w * h) (Vec4 0 0 0 0) \<rparr>),
             gl_next := tx + 1 \<rparr>))"

text \<open>
  \<open>createDoubleFBO\<close> keeps its two framebuffer objects in the variables \<open>fbo1\<close> and \<open>fbo2\<close>
  of a closure; \<open>read\<close> and \<open>write\<close> are getters on them and \<open>swap\<close> exchanges them
  through a temporary.  (The variant of the WebGL utilities keeps the two in the fields
  \<open>read\<close> and \<open>write\<close> of the returned object and exchanges those in the same way.)
\<close>

record doubleFBO =
  fbo1 :: fbo
  fbo2 :: fbo

definition read_fbo :: "doubleFBO \<Rightarrow> fbo" where
  \<comment> \<open>the getter \<open>read\<close>\<close>
  "read_fbo d = fbo1 d"

definition write_fbo :: "doubleFBO \<Rightarrow> fbo" where
  \<comment> \<open>the getter \<open>write\<close>\<close>
  "write_fbo d = fbo2 d"

definition swap :: "doubleFBO \<Rightarrow> doubleFBO" where
  "swap d = (let temp = fbo1 d in d\<lparr> fbo1 := fbo2 d, fbo2 := temp \<rparr>)"

definition createDoubleFBO ::
  "int \<Rightarrow> int \<Rightarrow> tex_filter \<Rightarrow> gl_state \<Rightarrow> doubleFBO \<times> gl_state" where
  "createDoubleFBO width height param g =
     (let (f1, g1) = createFBO width height param g;
          (f2, g2) = createFBO width height param g1
      in (\<lparr> fbo1 = f1, fbo2 = f2 \<rparr>, g2))"

definition blend_one_minus_src_alpha :: "vec4 \<Rightarrow> vec4 \<Rightarrow> vec4" where
  \<comment> \<open>\<open>gl.blendFunc(gl.ONE, gl.ONE_MINUS_SRC_ALPHA)\<close>, the only blend function the
      source sets\<close>
  "blend_one_minus_src_alpha src dst =
     Vec4 (vx src + vx dst * (1 - vw src)) (vy src + vy dst * (1 - vw src))
          (vz src + vz dst * (1 - vw src)) (vw src + vw dst * (1 - vw src))"

definition blit :: "fbo \<Rightarrow> vec2 \<Rightarrow> (varyings \<Rightarrow> vec4) \<Rightarrow> gl_state \<Rightarrow> gl_state" where
  \<comment> \<open>\<open>blit(target)\<close> with the bound program's \<open>texelSize\<close> uniform and fragment shader:
      the viewport is the target's size and the draw replaces (or, with \<open>BLEND\<close> enabled,
      blends into) the target's texture\<close>
  "blit target texelSize frag g =
     (let src = drawQuad (fbo_width target) (fbo_height target) texelSize frag;
          old = gl_textures g (fbo_texture target);
          out = (if gl_blend g then map2 blend_one_minus_src_alpha src (texels old) else src)
      in g\<lparr> gl_textures := (gl_textures g)(fbo_texture target := old\<lparr> texels := out \<rparr>) \<rparr>)"


section \<open>Configuration and simulation state\<close>

record color =
  col_r :: real
  col_g :: real
  col_b :: real

record config =
  SIM_RESOLUTION :: real
  DYE_RESOLUTION :: real
  DENSITY_DISSIPATION :: real
  VELOCITY_DISSIPATION :: real
  PRESSURE :: real
  PRESSURE_ITERATIONS :: real
  CURL :: real
  SPLAT_RADIUS :: real
  SPLAT_FORCE :: real
  SHADING :: bool
  COLORFUL :: bool
  PAUSED :: bool
  BACK_COLOR :: color
  TRANSPARENT :: bool
  FALLBACK_RESOLUTION :: real

definition default_config :: config where
  "default_config =
     \<lparr> SIM_RESOLUTION = 128, DYE_RESOLUTION = 1024, DENSITY_DISSIPATION = 3,
       VELOCITY_DISSIPATION = 45/100, PRESSURE = 8/10, PRESSURE_ITERATIONS = 20,
       CURL = 9, SPLAT_RADIUS = 12/100, SPLAT_FORCE = 6000, SHADING = False,
       COLORFUL = False, PAUSED = False, BACK_COLOR = \<lparr> col_r = 0, col_g = 0, col_b = 0 \<rparr>,
       TRANSPARENT = False, FALLBACK_RESOLUTION = 512 \<rparr>"

text \<open>
  The argument of \<open>setConfig\<close> is an object holding any subset of the configuration's
  properties: a record of optional fields.
\<close>

record partial_config =
  new_SIM_RESOLUTION :: "real option"
  new_DYE_RESOLUTION :: "real option"
  new_DENSITY_DISSIPATION :: "real option"
  new_VELOCITY_DISSIPATION :: "real option"
  new_PRESSURE :: "real option"
  new_PRESSURE_ITERATIONS :: "real option"
  new_CURL :: "real option"
  new_SPLAT_RADIUS :: "real option"
  new_SPLAT_FORCE :: "real option"
  new_SHADING :: "bool option"
  new_COLORFUL :: "bool option"
  new_PAUSED :: "bool option"
  new_BACK_COLOR :: "color option"
  new_TRANSPARENT :: "bool option"
  new_FALLBACK_RESOLUTION :: "real option"

definition assign :: "'a \<Rightarrow> 'a option \<Rightarrow> 'a" where
  \<comment> \<open>one property of \<open>Object.assign(target, source)\<close>: the source's value when the source
      has the property, the target's own otherwise\<close>
  "assign old new = (case new of None \<Rightarrow> old | Some v \<Rightarrow> v)"

record pointer =
  ptr_x :: real
  ptr_y :: real
  ptr_dx :: real
  ptr_dy :: real
  down :: bool
  moved :: bool
  ptr_color :: color

record resolution =
  width :: int
  height :: int

record sim =
  config :: config
  canvas_width :: nat
  canvas_height :: nat
  supportLinearFiltering :: bool
  gl :: gl_state
  simRes :: resolution
  dyeRes :: resolution
  density :: doubleFBO
  velocity :: doubleFBO
  divergence :: fbo
  curl :: fbo
  pressure :: doubleFBO
  pointer :: pointer
  lastTime :: real

section \<open>Resolutions and allocation\<close>

text \<open>
  The sides of a grid are integers, rounded from a quotient or a product of JavaScript
  numbers.  An error in the last bit of such a number can carry it across a half, so the
  arithmetic that \<open>getResolution\<close> rounds is modelled in double precision; the numbers of
  the shaders are taken as reals.
\<close>

definition js_round :: "real \<Rightarrow> int" where
  \<comment> \<open>\<open>Math.round\<close>: the nearest integer, halves rounded up\<close>
  "js_round x = \<lfloor>x + 1/2\<rfloor>"

definition round_half_even :: "real \<Rightarrow> int" where
  \<comment> \<open>the nearest integer, a tie going to the even one\<close>
  "round_half_even r =
     (let f = \<lfloor>r\<rfloor>
      in if r - of_int f < 1/2 then f
         else if 1/2 < r - of_int f then f + 1
         else if even f then f else f + 1)"

definition binade :: "real \<Rightarrow> int" where
  \<comment> \<open>the exponent of a double: that of the binade the number lies in, and \<open>-1022\<close> for the
      subnormal numbers\<close>
  "binade x = max \<lfloor>log 2 \<bar>x\<bar>\<rfloor> (- 1022)"

definition to_double :: "real \<Rightarrow> real" where
  \<comment> \<open>the value a JavaScript number takes for the exact result of an operation: the nearest
      IEEE 754 double, with a significand of 53 bits and ties to the even significand.  The
      overflow to \<open>Infinity\<close> above \<open>2 ^ 1024\<close> is not modelled\<close>
  "to_double x =
     (if x = 0 then 0
      else of_int (round_half_even (x / 2 powr of_int (binade x - 52))) * 2 powr of_int (binade x - 52))"

definition getResolution :: "sim \<Rightarrow> real \<Rightarrow> resolution" where
  \<comment> \<open>the quotient and the products are those of doubles; \<open>Math.round\<close> is exact\<close>
  "getResolution st resolution =
     (let aspectRatio = to_double (real (canvas_width st) / real (canvas_height st))
      in if aspectRatio < 1
         then \<lparr> width = js_round resolution,
                height = js_round (to_double (resolution / aspectRatio)) \<rparr>
         else \<lparr> width = js_round (to_double (resolution * aspectRatio)),
                height = js_round resolution \<rparr>)"

definition getResolution_utils :: "nat \<Rightarrow> nat \<Rightarrow> real \<Rightarrow> resolution" where
  \<comment> \<open>the variant of the WebGL utilities, on \<open>gl.drawingBufferWidth\<close> and
      \<open>gl.drawingBufferHeight\<close>\<close>
  "getResolution_utils drawingBufferWidth drawingBufferHeight resolution =
     (let aspectRatio = to_double (real drawingBufferWidth / real drawingBufferHeight);
          aspectRatio = (if aspectRatio < 1 then to_double (1 / aspectRatio) else aspectRatio);
          mx = js_round (to_double (resolution * aspectRatio));
          mn = js_round resolution
      in if drawingBufferWidth > drawingBufferHeight
         then \<lparr> width = mx, height = mn \<rparr>
         else \<lparr> width = mn, height = mx \<rparr>)"

definition correctRadius :: "nat \<Rightarrow> nat \<Rightarrow> real \<Rightarrow> real" where
  \<comment> \<open>helper of the WebGL utilities; no function of the simulation calls it\<close>
  "correctRadius drawingBufferWidth drawingBufferHeight radius =
     (let aspectRatio = real drawingBufferWidth / real drawingBufferHeight
      in radius * aspectRatio)"

definition resizeCanvas :: "nat \<Rightarrow> nat \<Rightarrow> sim \<Rightarrow> sim" where
  \<comment> \<open>the two arguments are the new \<open>canvas.width\<close> and \<open>canvas.height\<close>, computed by the
      browser from the client size and the device pixel ratio\<close>
  "resizeCanvas cw ch st0 =
     (let st = st0\<lparr> canvas_width := cw, canvas_height := ch \<rparr>;
          sr = getResolution st (SIM_RESOLUTION (config st));
          dr = getResolution st (DYE_RESOLUTION (config st));
          filterType = (if supportLinearFiltering st then LINEAR else NEAREST);
          (den, g1) = createDoubleFBO (width dr) (height dr) filterType (gl st);
          (vel, g2) = createDoubleFBO (width sr) (height sr) filterType g1;
          (dv, g3) = createFBO (width sr) (height sr) NEAREST g2;
          (cu, g4) = createFBO (width sr) (height sr) NEAREST g3;
          (pr, g5) = createDoubleFBO (width sr) (height sr) NEAREST g4
      in st\<lparr> simRes := sr, dyeRes := dr, density := den, velocity := vel,
              divergence := dv, curl := cu, pressure := pr, gl := g5 \<rparr>)"


definition no_fbo :: fbo where
  \<comment> \<open>the value of a framebuffer variable before its first assignment\<close>
  "no_fbo = \<lparr> fbo_texture = 0, fbo_width = 0, fbo_height = 0 \<rparr>"

definition createFluidSimulation :: "nat \<Rightarrow> nat \<Rightarrow> bool \<Rightarrow> bool \<Rightarrow> sim" where
  \<comment> \<open>the state \<open>createFluidSimulation(canvas)\<close> builds before it injects its random
      initial splats: the canvas size, and whether the context supports linear filtering
      and half-float colour buffers (\<open>ext.supportLinearFiltering\<close>,
      \<open>ext.extColorBufferHalfFloat\<close>), come from the browser.  The framebuffers are
      allocated by the same calls as in \<open>resizeCanvas\<close>, which then runs once.\<close>
  "createFluidSimulation cw ch linearFiltering halfFloat =
     (let c = default_config;
          c = (if \<not> linearFiltering
               then c\<lparr> DYE_RESOLUTION := FALLBACK_RESOLUTION c,
                      SIM_RESOLUTION := min (SIM_RESOLUTION c) (FALLBACK_RESOLUTION c),
                      SHADING := False \<rparr>
               else c);
          c = (if \<not> halfFloat
               then c\<lparr> DYE_RESOLUTION := real_of_int \<lfloor>FALLBACK_RESOLUTION c / 2\<rfloor>,
                      SIM_RESOLUTION :=
                        min (SIM_RESOLUTION c) (real_of_int \<lfloor>FALLBACK_RESOLUTION c / 2\<rfloor>),
                      CURL := min (CURL c) 20,
                      PRESSURE_ITERATIONS := min (PRESSURE_ITERATIONS c) 15 \<rparr>
               else c);
          st = \<lparr> config = c, canvas_width = cw, canvas_height = ch,
                 supportLinearFiltering = linearFiltering,
                 gl = \<lparr> gl_textures = (\<lambda>_. \<lparr> tex_width = 0, tex_height = 0,
                                              tex_filter = NEAREST, texels = [] \<rparr>),
                        gl_next = 0, gl_blend = False \<rparr>,
                 simRes = \<lparr> width = 0, height = 0 \<rparr>, dyeRes = \<lparr> width = 0, height = 0 \<rparr>,
                 density = \<lparr> fbo1 = no_fbo, fbo2 = no_fbo \<rparr>,
                 velocity = \<lparr> fbo1 = no_fbo, fbo2 = no_fbo \<rparr>,
                 divergence = no_fbo, curl = no_fbo,
                 pressure = \<lparr> fbo1 = no_fbo, fbo2 = no_fbo \<rparr>,
                 pointer = \<lparr> ptr_x = 0, ptr_y = 0, ptr_dx = 0, ptr_dy = 0, down = False,
                             moved = False,
                             ptr_color = \<lparr> col_r = 0, col_g = 0, col_b = 0 \<rparr> \<rparr>,
                 lastTime = 0 \<rparr>
      in resizeCanvas cw ch (resizeCanvas cw ch st))"

section \<open>Splat\<close>

definition sampler :: "sim \<Rightarrow> fbo \<Rightarrow> texture" where
  \<comment> \<open>\<open>fbo.attach(id)\<close> followed by \<open>gl.uniform1i(sampler, id)\<close>: the sampler reads the
      framebuffer object's texture as it is when the draw call is issued\<close>
  "sampler st f = gl_textures (gl st) (fbo_texture f)"

definition splat :: "real \<Rightarrow> real \<Rightarrow> real \<Rightarrow> real \<Rightarrow> color \<Rightarrow> sim \<Rightarrow> sim" where
  \<comment> \<open>the splat program's \<open>texelSize\<close> uniform is never set and keeps the GL default
      \<open>(0, 0)\<close>\<close>
  "splat x y dx dy color st0 =
     (let aspectRatio = real (canvas_width st0) / real (canvas_height st0);
          point = Vec2 x y;
          radius = SPLAT_RADIUS (config st0) / 100;
          st1 = st0\<lparr> gl := blit (write_fbo (velocity st0)) (Vec2 0 0)
                   (splatShader (sampler st0 (read_fbo (velocity st0))) aspectRatio
                      (Vec3 dx dy 0) point radius) (gl st0) \<rparr>;
          st2 = st1\<lparr> velocity := swap (velocity st1) \<rparr>;
          st3 = st2\<lparr> gl := blit (write_fbo (density st2)) (Vec2 0 0)
                   (splatShader (sampler st2 (read_fbo (density st2))) aspectRatio
                      (Vec3 (col_r color) (col_g color) (col_b color)) point radius) (gl st2) \<rparr>
      in st3\<lparr> density := swap (density st3) \<rparr>)"

definition applyInputs :: "sim \<Rightarrow> sim" where
  "applyInputs st =
     (if moved (pointer st) \<and> down (pointer st) then
        (let st1 = st\<lparr> pointer := (pointer st)\<lparr> moved := False \<rparr> \<rparr>;
             velocity = 10 * ptr_dx (pointer st1);
             force = 10 * ptr_dy (pointer st1)
         in splat (ptr_x (pointer st1) / real (canvas_width st1))
                  (1 - ptr_y (pointer st1) / real (canvas_height st1))
                  velocity (- force) (ptr_color (pointer st1)) st1)
      else st)"

section \<open>The simulation step\<close>

definition simTexelSize :: "sim \<Rightarrow> vec2" where
  \<comment> \<open>the value \<open>step\<close> gives every program's \<open>texelSize\<close> uniform\<close>
  "simTexelSize st =
     Vec2 (1 / real_of_int (width (simRes st))) (1 / real_of_int (height (simRes st)))"

definition step_curl :: "sim \<Rightarrow> sim" where
  \<comment> \<open>"Calculate curl and vorticity"\<close>
  "step_curl st =
     st\<lparr> gl := blit (curl st) (simTexelSize st)
             (curlShader (sampler st (read_fbo (velocity st)))) (gl st) \<rparr>"

definition step_vorticity :: "real \<Rightarrow> sim \<Rightarrow> sim" where
  \<comment> \<open>"Apply vorticity force"\<close>
  "step_vorticity dt st =
     (let st1 = st\<lparr> gl := blit (write_fbo (velocity st)) (simTexelSize st)
                    (vorticityShader (sampler st (read_fbo (velocity st))) (sampler st (curl st))
                       (CURL (config st)) dt) (gl st) \<rparr>
      in st1\<lparr> velocity := swap (velocity st1) \<rparr>)"

definition step_advect_velocity :: "real \<Rightarrow> sim \<Rightarrow> sim" where
  \<comment> \<open>"Advect velocity"\<close>
  "step_advect_velocity dt st =
     (let st1 = st\<lparr> gl := blit (write_fbo (velocity st)) (simTexelSize st)
                    (advectionShader (sampler st (read_fbo (velocity st)))
                       (sampler st (read_fbo (velocity st))) (simTexelSize st) dt
                       (VELOCITY_DISSIPATION (config st))) (gl st) \<rparr>
      in st1\<lparr> velocity := swap (velocity st1) \<rparr>)"

definition step_advect_density :: "real \<Rightarrow> sim \<Rightarrow> sim" where
  \<comment> \<open>"Advect density": the advection program stays bound, with the \<open>texelSize\<close> and \<open>dt\<close>
      uniforms of the velocity pass\<close>
  "step_advect_density dt st =
     (let st1 = st\<lparr> gl := blit (write_fbo (density st)) (simTexelSize st)
                    (advectionShader (sampler st (read_fbo (velocity st)))
                       (sampler st (read_fbo (density st))) (simTexelSize st) dt
                       (DENSITY_DISSIPATION (config st))) (gl st) \<rparr>
      in st1\<lparr> density := swap (density st1) \<rparr>)"

definition step_divergence :: "sim \<Rightarrow> sim" where
  \<comment> \<open>"Calculate divergence"\<close>
  "step_divergence st =
     st\<lparr> gl := blit (divergence st) (simTexelSize st)
             (divergenceShader (sampler st (read_fbo (velocity st)))) (gl st) \<rparr>"

definition pressure_iteration :: "sim \<Rightarrow> sim" where
  \<comment> \<open>the body of the loop "Solve pressure iteratively"\<close>
  "pressure_iteration st =
     (let st1 = st\<lparr> gl := blit (write_fbo (pressure st)) (simTexelSize st)
                    (pressureShader (sampler st (read_fbo (pressure st)))
                       (sampler st (divergence st))) (gl st) \<rparr>
      in st1\<lparr> pressure := swap (pressure st1) \<rparr>)"

function pressure_loop :: "nat \<Rightarrow> sim \<Rightarrow> sim" where
  \<comment> \<open>\<open>for (let i = 0; i < config.PRESSURE_ITERATIONS; i++)\<close>, entered with \<open>i\<close>\<close>
  "pressure_loop i st =
     (if real i < PRESSURE_ITERATIONS (config st)
      then pressure_loop (i + 1) (pressure_iteration st)
      else st)"
  by pat_completeness auto
termination
proof (relation "measure (\<lambda>(i, st). nat \<lceil>PRESSURE_ITERATIONS (config st)\<rceil> - i)")
  show "wf (measure (\<lambda>(i, st). nat \<lceil>PRESSURE_ITERATIONS (config st)\<rceil> - i))"
    by simp
next
  fix i :: nat and st :: sim
  assume "real i < PRESSURE_ITERATIONS (config st)"
  then have "i < nat \<lceil>PRESSURE_ITERATIONS (config st)\<rceil>"
    by linarith
  then show "((i + 1, pressure_iteration st), (i, st))
               \<in> measure (\<lambda>(i, st). nat \<lceil>PRESSURE_ITERATIONS (config st)\<rceil> - i)"
    by (simp add: pressure_iteration_def Let_def)
qed

definition step_gradient_subtract :: "sim \<Rightarrow> sim" where
  \<comment> \<open>"Subtract pressure gradient"\<close>
  "step_gradient_subtract st =
     (let st1 = st\<lparr> gl := blit (write_fbo (velocity st)) (simTexelSize st)
                    (gradientSubtractShader (sampler st (read_fbo (pressure st)))
                       (sampler st (read_fbo (velocity st)))) (gl st) \<rparr>
      in st1\<lparr> velocity := swap (velocity st1) \<rparr>)"

definition step :: "real \<Rightarrow> sim \<Rightarrow> sim" where
  "step dt st0 =
     (let st = st0\<lparr> gl := (gl st0)\<lparr> gl_blend := False \<rparr> \<rparr>;
          st = step_curl st;
          st = step_vorticity dt st;
          st = step_advect_velocity dt st;
          st = step_advect_density dt st;
          st = step_divergence st;
          st = pressure_loop 0 st
      in step_gradient_subtract st)"

definition render :: "sim \<Rightarrow> sim" where
  \<comment> \<open>the display pass draws the dye to the canvas; of the simulation's state it changes
      the \<open>BLEND\<close> capability only\<close>
  "render st = st\<lparr> gl := (gl st)\<lparr> gl_blend := True \<rparr> \<rparr>"

definition or_zero :: "real \<Rightarrow> real" where
  \<comment> \<open>\<open>x || 0\<close> on a number\<close>
  "or_zero x = (if x = 0 then 0 else x)"

definition update :: "real \<Rightarrow> sim \<Rightarrow> sim" where
  \<comment> \<open>one animation frame; \<open>requestAnimationFrame(update)\<close> asks the browser for the next\<close>
  "update time st0 =
     (let dt = or_zero ((time - lastTime st0) / 1000);
          st = st0\<lparr> lastTime := time \<rparr>;
          st = applyInputs st;
          st = step (min dt (16/1000)) st
      in render st)"


section \<open>The returned API\<close>

definition setConfig :: "partial_config \<Rightarrow> sim \<Rightarrow> sim" where
  \<comment> \<open>\<open>Object.assign(config, newConfig)\<close>\<close>
  "setConfig newConfig st =
     st\<lparr> config :=
       \<lparr> SIM_RESOLUTION = assign (SIM_RESOLUTION (config st)) (new_SIM_RESOLUTION newConfig),
         DYE_RESOLUTION = assign (DYE_RESOLUTION (config st)) (new_DYE_RESOLUTION newConfig),
         DENSITY_DISSIPATION =
           assign (DENSITY_DISSIPATION (config st)) (new_DENSITY_DISSIPATION newConfig),
         VELOCITY_DISSIPATION =
           assign (VELOCITY_DISSIPATION (config st)) (new_VELOCITY_DISSIPATION newConfig),
         PRESSURE = assign (PRESSURE (config st)) (new_PRESSURE newConfig),
         PRESSURE_ITERATIONS =
           assign (PRESSURE_ITERATIONS (config st)) (new_PRESSURE_ITERATIONS newConfig),
         CURL = assign (CURL (config st)) (new_CURL newConfig),
         SPLAT_RADIUS = assign (SPLAT_RADIUS (config st)) (new_SPLAT_RADIUS newConfig),
         SPLAT_FORCE = assign (SPLAT_FORCE (config st)) (new_SPLAT_FORCE newConfig),
         SHADING = assign (SHADING (config st)) (new_SHADING newConfig),
         COLORFUL = assign (COLORFUL (config st)) (new_COLORFUL newConfig),
         PAUSED = assign (PAUSED (config st)) (new_PAUSED newConfig),
         BACK_COLOR = assign (BACK_COLOR (config st)) (new_BACK_COLOR newConfig),
         TRANSPARENT = assign (TRANSPARENT (config st)) (new_TRANSPARENT newConfig),
         FALLBACK_RESOLUTION =
           assign (FALLBACK_RESOLUTION (config st)) (new_FALLBACK_RESOLUTION newConfig) \<rparr> \<rparr>"

definition pause :: "sim \<Rightarrow> sim" where
  "pause st = st\<lparr> config := (config st)\<lparr> PAUSED := True \<rparr> \<rparr>"

definition resume :: "sim \<Rightarrow> sim" where
  "resume st =
     update 0 (st\<lparr> config := (config st)\<lparr> PAUSED := False \<rparr>, lastTime := 0 \<rparr>)"

definition no_change :: partial_config where
  \<comment> \<open>the empty object \<open>{}\<close>\<close>
  "no_change =
     \<lparr> new_SIM_RESOLUTION = None, new_DYE_RESOLUTION = None, new_DENSITY_DISSIPATION = None,
       new_VELOCITY_DISSIPATION = None, new_PRESSURE = None, new_PRESSURE_ITERATIONS = None,
       new_CURL = None, new_SPLAT_RADIUS = None, new_SPLAT_FORCE = None, new_SHADING = None,
       new_COLORFUL = None, new_PAUSED = None, new_BACK_COLOR = None, new_TRANSPARENT = None,
       new_FALLBACK_RESOLUTION = None \<rparr>"

section \<open>Well-formed states\<close>

definition wf_texture :: "texture \<Rightarrow> bool" where
  "wf_texture t \<longleftrightarrow>
     0 < tex_width t \<and> 0 < tex_height t \<and> length (texels t) = tex_width t * tex_height t"

definition wf_fbo :: "sim \<Rightarrow> fbo \<Rightarrow> bool" where
  \<comment> \<open>the texture of a framebuffer object has the object's size, as \<open>createFBO\<close> makes it\<close>
  "wf_fbo st f \<longleftrightarrow>
     wf_texture (sampler st f) \<and> tex_width (sampler st f) = fbo_width f \<and>
     tex_height (sampler st f) = fbo_height f"

definition sim_sized :: "sim \<Rightarrow> fbo \<Rightarrow> bool" where
  "sim_sized st f \<longleftrightarrow>
     int (fbo_width f) = width (simRes st) \<and> int (fbo_height f) = height (simRes st)"

definition fbos_distinct :: "sim \<Rightarrow> bool" where
  "fbos_distinct st \<longleftrightarrow>
     distinct (map fbo_texture
       [fbo1 (velocity st), fbo2 (velocity st), fbo1 (density st), fbo2 (density st),
        fbo1 (pressure st), fbo2 (pressure st), divergence st, curl st])"

definition fbos_wf :: "sim \<Rightarrow> bool" where
  "fbos_wf st \<longleftrightarrow>
     wf_fbo st (fbo1 (velocity st)) \<and> wf_fbo st (fbo2 (velocity st)) \<and>
     wf_fbo st (fbo1 (density st)) \<and> wf_fbo st (fbo2 (density st)) \<and>
     wf_fbo st (fbo1 (pressure st)) \<and> wf_fbo st (fbo2 (pressure st)) \<and>
     wf_fbo st (divergence st) \<and> wf_fbo st (curl st)"

definition fbos_sized :: "sim \<Rightarrow> bool" where
  "fbos_sized st \<longleftrightarrow>
     sim_sized st (fbo1 (velocity st)) \<and> sim_sized st (fbo2 (velocity st)) \<and>
     sim_sized st (fbo1 (pressure st)) \<and> sim_sized st (fbo2 (pressure st)) \<and>
     sim_sized st (divergence st) \<and> sim_sized st (curl st) \<and>
     fbo_width (fbo1 (density st)) = fbo_width (fbo2 (density st)) \<and>
     fbo_height (fbo1 (density st)) = fbo_height (fbo2 (density st))"

definition wf_sim :: "sim \<Rightarrow> bool" where
  \<comment> \<open>what \<open>resizeCanvas\<close> establishes on a canvas of positive size: eight framebuffer
      objects on eight different textures, each texture of its object's size, the
      velocity, pressure, divergence and curl at the simulation resolution, and the two
      sides of the dye of one size\<close>
  "wf_sim st \<longleftrightarrow> fbos_distinct st \<and> fbos_wf st \<and> fbos_sized st"

definition centre :: "nat \<Rightarrow> nat \<Rightarrow> int \<Rightarrow> int \<Rightarrow> vec2" where
  \<comment> \<open>the normalised coordinate of the centre of texel \<open>(i, j)\<close> of a \<open>w \<times> h\<close> grid\<close>
  "centre w h i j = Vec2 ((real_of_int i + 1/2) / real w) ((real_of_int j + 1/2) / real h)"

definition pass :: "texture \<Rightarrow> vec2 \<Rightarrow> (varyings \<Rightarrow> vec4) \<Rightarrow> texture" where
  \<comment> \<open>a draw that replaces every texel of the target texture\<close>
  "pass target texelSize frag =
     target\<lparr> texels := drawQuad (tex_width target) (tex_height target) texelSize frag \<rparr>"


section \<open>The fields as values\<close>

text \<open>
  The state addresses its textures through framebuffer objects.  \<open>fields_of\<close> reads the
  eight textures of a state: the two sides of each double buffer and the two scalar
  fields.  \<open>jacobi\<close> is one pressure iteration on the pair (read side, write side): the
  draw into the write side from the read side, followed by the exchange of the sides.
\<close>

definition blank :: "int \<Rightarrow> int \<Rightarrow> tex_filter \<Rightarrow> texture" where
  \<comment> \<open>the texture \<open>createFBO\<close> allocates\<close>
  "blank w h p = \<lparr> tex_width = nat w, tex_height = nat h, tex_filter = p,
                   texels = replicate (nat w * nat h) (Vec4 0 0 0 0) \<rparr>"

record grid_fields =
  velocity_read :: texture
  velocity_write :: texture
  dye_read :: texture
  dye_write :: texture
  pressure_read :: texture
  pressure_write :: texture
  divergence_field :: texture
  curl_field :: texture

definition fields_of :: "sim \<Rightarrow> grid_fields" where
  "fields_of st =
     \<lparr> velocity_read = sampler st (read_fbo (velocity st)),
       velocity_write = sampler st (write_fbo (velocity st)),
       dye_read = sampler st (read_fbo (density st)),
       dye_write = sampler st (write_fbo (density st)),
       pressure_read = sampler st (read_fbo (pressure st)),
       pressure_write = sampler st (write_fbo (pressure st)),
       divergence_field = sampler st (divergence st),
       curl_field = sampler st (curl st) \<rparr>"

definition jacobi :: "vec2 \<Rightarrow> texture \<Rightarrow> texture \<times> texture \<Rightarrow> texture \<times> texture" where
  "jacobi ts dv pq = (pass (snd pq) ts (pressureShader (fst pq) dv), fst pq)"


section \<open>The projection and the divergence of a state\<close>

definition project :: "sim \<Rightarrow> sim" where
  \<comment> \<open>the last three stages of \<open>step\<close>: divergence, pressure iterations, gradient
      subtraction\<close>
  "project st = step_gradient_subtract (pressure_loop 0 (step_divergence st))"

definition divergence_of :: "sim \<Rightarrow> real list" where
  \<comment> \<open>the divergence of the velocity of a state, cell by cell, as the divergence
      program computes it\<close>
  "divergence_of st =
     map vx (texels (pass (velocity_read (fields_of st)) (simTexelSize st)
                      (divergenceShader (velocity_read (fields_of st)))))"

definition mean_abs :: "real list \<Rightarrow> real" where
  \<comment> \<open>the mean of the absolute values\<close>
  "mean_abs xs = sum_list (map abs xs) / real (length xs)"


definition uniform_x :: "real \<Rightarrow> texture \<Rightarrow> bool" where
  \<comment> \<open>the x component of every texel is \<open>a\<close>\<close>
  "uniform_x a t \<longleftrightarrow> list_all (\<lambda>v. vx v = a) (texels t)"


section \<open>The falloff of a splat\<close>

definition gaussian :: "sim \<Rightarrow> nat \<Rightarrow> nat \<Rightarrow> real \<Rightarrow> real \<Rightarrow> nat \<Rightarrow> real" where
  \<comment> \<open>the factor \<open>exp(-dot(p, p) / radius)\<close> of the splat program at cell \<open>k\<close> of a
      \<open>w \<times> h\<close> target, for the uniforms \<open>splat\<close> sets: the offset from the point
      \<open>(x, y)\<close> with its x-component multiplied by the aspect ratio of the canvas, and
      the radius \<open>SPLAT_RADIUS / 100\<close>\<close>
  "gaussian st w h x y k =
     (let aspectRatio = real (canvas_width st) / real (canvas_height st);
          radius = SPLAT_RADIUS (config st) / 100;
          px = ((real (k mod w) + 1/2) / real w - x) * aspectRatio;
          py = (real (k div w) + 1/2) / real h - y
      in exp (- (px * px + py * py) / radius))"


section \<open>A small example state\<close>

text \<open>
  A canvas of 2 by 1 pixels with the target resolutions set to 1: the simulation grid and
  the dye grid are 2 by 1 cells.  The splat radius is set to 100, so that the radius
  uniform is 1.
\<close>

definition small_config :: partial_config where
  \<comment> \<open>the object the page's script passes to \<open>setConfig\<close>, with the two resolutions and the
      splat radius changed\<close>
  "small_config =
     \<lparr> new_SIM_RESOLUTION = Some 1, new_DYE_RESOLUTION = Some 1,
       new_DENSITY_DISSIPATION = Some (99/100), new_VELOCITY_DISSIPATION = Some (98/100),
       new_PRESSURE = Some (8/10), new_PRESSURE_ITERATIONS = Some 20, new_CURL = Some 4,
       new_SPLAT_RADIUS = Some 100, new_SPLAT_FORCE = Some 5000, new_SHADING = Some False,
       new_COLORFUL = Some False, new_PAUSED = None, new_BACK_COLOR = None,
       new_TRANSPARENT = None, new_FALLBACK_RESOLUTION = None \<rparr>"

definition small_sim :: sim where
  "small_sim = resizeCanvas 2 1 (setConfig small_config (createFluidSimulation 2 1 True True))"


definition pushed_sim :: sim where
  \<comment> \<open>the small state after a splat at the left edge that pushes to the right\<close>
  "pushed_sim = splat 0 (1/2) 1 0 \<lparr> col_r = 1, col_g = 0, col_b = 0 \<rparr> small_sim"


section \<open>Rounding to a double\<close>

lemma round_half_even_cases:
  "round_half_even r = \<lfloor>r\<rfloor> \<and> r - of_int \<lfloor>r\<rfloor> \<le> 1/2 \<or>
   round_half_even r = \<lfloor>r\<rfloor> + 1 \<and> 1/2 \<le> r - of_int \<lfloor>r\<rfloor>"
  by (simp add: round_half_even_def Let_def)

lemma round_half_even_eqI:
  assumes "\<bar>r - of_int m\<bar> < 1/2"
  shows "round_half_even r = m"
proof -
  from assms have "\<lfloor>r\<rfloor> = m \<and> r - of_int m < 1/2 \<or> \<lfloor>r\<rfloor> = m - 1 \<and> 1/2 < r - of_int (m - 1)"
    by (cases "of_int m \<le> r") (auto simp: floor_eq_iff)
  then show ?thesis
    by (auto simp: round_half_even_def Let_def)
qed

lemma round_half_even_of_int [simp]: "round_half_even (of_int n) = n"
  by (rule round_half_even_eqI) simp

lemma round_half_even_mono:
  assumes "r \<le> s"
  shows "round_half_even r \<le> round_half_even s"
proof (cases "\<lfloor>r\<rfloor> = \<lfloor>s\<rfloor>")
  case True
  with assms show ?thesis
    by (auto simp: round_half_even_def Let_def)
next
  case False
  with assms have "\<lfloor>r\<rfloor> + 1 \<le> \<lfloor>s\<rfloor>" using floor_mono [OF assms] by linarith
  moreover have "round_half_even r \<le> \<lfloor>r\<rfloor> + 1" using round_half_even_cases [of r] by auto
  moreover have "\<lfloor>s\<rfloor> \<le> round_half_even s" using round_half_even_cases [of s] by auto
  ultimately show ?thesis by linarith
qed

lemma round_half_even_ge: "of_int n \<le> r \<Longrightarrow> n \<le> round_half_even r"
  using round_half_even_mono [of "of_int n" r] by simp

lemma round_half_even_le: "r \<le> of_int n \<Longrightarrow> round_half_even r \<le> n"
  using round_half_even_mono [of r "of_int n"] by simp

lemma binade_eqI:
  assumes "0 < x" "- 1022 \<le> e" "2 powr of_int e \<le> x" "x < 2 powr (of_int e + 1)"
  shows "binade x = e"
proof -
  from assms have "of_int e \<le> log 2 x" by (simp add: le_log_iff)
  moreover from assms have "log 2 x < of_int e + 1" by (simp add: log_less_iff)
  ultimately have "\<lfloor>log 2 x\<rfloor> = e" by (simp add: floor_eq_iff)
  with assms show ?thesis by (simp add: binade_def)
qed

lemma binade_upper:
  assumes "0 < x"
  shows "x < 2 powr (of_int (binade x) + 1)"
proof -
  have "log 2 x < of_int \<lfloor>log 2 x\<rfloor> + 1" by linarith
  also have "\<dots> \<le> of_int (binade x) + 1" using assms by (simp add: binade_def)
  finally show ?thesis using assms by (simp add: log_less_iff)
qed

lemma binade_lower:
  assumes "0 < x" "- 1022 < binade x"
  shows "2 powr of_int (binade x) \<le> x"
proof -
  from assms have "binade x = \<lfloor>log 2 x\<rfloor>" by (simp add: binade_def max_def split: if_splits)
  then have "of_int (binade x) \<le> log 2 x" by simp
  with assms show ?thesis by (simp add: le_log_iff)
qed

lemma binade_mono:
  assumes "0 < x" "x \<le> y"
  shows "binade x \<le> binade y"
proof -
  from assms have "log 2 x \<le> log 2 y" by simp
  then have "\<lfloor>log 2 x\<rfloor> \<le> \<lfloor>log 2 y\<rfloor>" by (rule floor_mono)
  then have "max \<lfloor>log 2 x\<rfloor> (- 1022) \<le> max \<lfloor>log 2 y\<rfloor> (- 1022)" by (intro max.mono) simp_all
  with assms show ?thesis by (simp add: binade_def)
qed

lemma to_double_pos:
  assumes "0 < x"
  shows "to_double x =
    of_int (round_half_even (x / 2 powr of_int (binade x - 52))) * 2 powr of_int (binade x - 52)"
  using assms by (simp add: to_double_def)

lemma to_double_upper:
  assumes "0 < x"
  shows "to_double x \<le> 2 powr (of_int (binade x) + 1)"
proof -
  let ?u = "2 powr of_int (binade x - 52) :: real"
  have u: "0 < ?u" by simp
  have split: "2 powr (of_int (binade x) + 1) = (2 ^ 53) * ?u"
  proof -
    have "of_int (binade x) + 1 = (53 + of_int (binade x - 52) :: real)" by simp
    then have "2 powr (of_int (binade x) + 1) = 2 powr (53 + of_int (binade x - 52) :: real)"
      by (rule arg_cong)
    also have "\<dots> = 2 powr 53 * ?u" by (simp only: powr_add)
    finally show ?thesis by simp
  qed
  have "x / ?u \<le> 2 ^ 53"
    using binade_upper [OF assms] u unfolding split by (simp add: field_simps)
  then have "x / ?u \<le> of_int (2 ^ 53)" by simp
  then have "round_half_even (x / ?u) \<le> 2 ^ 53" by (rule round_half_even_le)
  then have "(of_int (round_half_even (x / ?u)) :: real) \<le> of_int (2 ^ 53)" by (simp only: of_int_le_iff)
  then have "of_int (round_half_even (x / ?u)) * ?u \<le> 2 ^ 53 * ?u"
    using u by (simp del: powr_gt_zero)
  then show ?thesis unfolding to_double_pos [OF assms] split .
qed

lemma to_double_lower:
  assumes "0 < x" "2 powr of_int (binade x) \<le> x"
  shows "2 powr of_int (binade x) \<le> to_double x"
proof -
  let ?u = "2 powr of_int (binade x - 52) :: real"
  have u: "0 < ?u" by simp
  have split: "2 powr of_int (binade x) = (2 ^ 52) * ?u"
  proof -
    have "of_int (binade x) = (52 + of_int (binade x - 52) :: real)" by simp
    then have "2 powr of_int (binade x) = 2 powr (52 + of_int (binade x - 52) :: real)"
      by (rule arg_cong)
    also have "\<dots> = 2 powr 52 * ?u" by (simp only: powr_add)
    finally show ?thesis by simp
  qed
  have "2 ^ 52 \<le> x / ?u"
    using assms(2) u unfolding split by (simp add: field_simps)
  then have "of_int (2 ^ 52) \<le> x / ?u" by simp
  then have "2 ^ 52 \<le> round_half_even (x / ?u)" by (rule round_half_even_ge)
  then have "(of_int (2 ^ 52) :: real) \<le> of_int (round_half_even (x / ?u))" by (simp only: of_int_le_iff)
  then have "2 ^ 52 * ?u \<le> of_int (round_half_even (x / ?u)) * ?u"
    using u by (simp del: powr_gt_zero)
  then show ?thesis unfolding to_double_pos [OF assms(1)] split .
qed

lemma to_double_nonneg:
  assumes "0 \<le> x"
  shows "0 \<le> to_double x"
proof (cases "x = 0")
  case True then show ?thesis by (simp add: to_double_def)
next
  case False
  with assms have x: "0 < x" by simp
  have "of_int 0 \<le> x / 2 powr of_int (binade x - 52)" using x by simp
  then have "0 \<le> round_half_even (x / 2 powr of_int (binade x - 52))" by (rule round_half_even_ge)
  then show ?thesis unfolding to_double_pos [OF x] by simp
qed

lemma to_double_mono:
  assumes "0 \<le> x" "x \<le> y"
  shows "to_double x \<le> to_double y"
proof (cases "x = 0")
  case True
  with assms show ?thesis using to_double_nonneg [of y] by (simp add: to_double_def)
next
  case False
  with assms have x: "0 < x" and y: "0 < y" by simp_all
  show ?thesis
  proof (cases "binade x = binade y")
    case True
    let ?u = "2 powr of_int (binade y - 52) :: real"
    have "x / ?u \<le> y / ?u" using assms by (simp add: divide_right_mono)
    then have "round_half_even (x / ?u) \<le> round_half_even (y / ?u)" by (rule round_half_even_mono)
    then have "(of_int (round_half_even (x / ?u)) :: real) * ?u \<le> of_int (round_half_even (y / ?u)) * ?u"
      by (intro mult_right_mono) simp_all
    then show ?thesis unfolding to_double_pos [OF x] to_double_pos [OF y] True .
  next
    case False
    with binade_mono [OF x assms(2)] have lt: "binade x < binade y" by simp
    have "- 1022 \<le> binade x" by (simp add: binade_def)
    with lt have "- 1022 < binade y" by simp
    then have "2 powr of_int (binade y) \<le> y" by (rule binade_lower [OF y])
    then have "2 powr of_int (binade y) \<le> to_double y" by (rule to_double_lower [OF y])
    moreover have "to_double x \<le> 2 powr (of_int (binade x) + 1)" by (rule to_double_upper [OF x])
    moreover have "(2::real) powr (of_int (binade x) + 1) \<le> 2 powr of_int (binade y)"
      using lt by simp
    ultimately show ?thesis by linarith
  qed
qed

lemma to_double_eqI:
  assumes "0 < x" "- 1022 \<le> e" "2 powr of_int e \<le> x" "x < 2 powr (of_int e + 1)"
    and "\<bar>x / 2 powr of_int (e - 52) - of_int m\<bar> < 1/2"
  shows "to_double x = of_int m * 2 powr of_int (e - 52)"
  unfolding to_double_pos [OF assms(1)] binade_eqI [OF assms(1-4)]
    round_half_even_eqI [OF assms(5)] ..

lemma to_double_1: "to_double 1 = 1"
  using to_double_eqI [of 1 0 "2 ^ 52"] by (simp add: powr_neg_numeral powr_numeral)

lemma to_double_2: "to_double 2 = 2"
  using to_double_eqI [of 2 1 "2 ^ 52"] by (simp add: powr_neg_numeral powr_numeral)

lemma to_double_positive:
  assumes "2 powr (- 1022) \<le> x"
  shows "0 < to_double x"
proof -
  have "0 < (2::real) powr (- 1022)" by simp
  with assms have x: "0 < x" by linarith
  have ge: "- 1022 \<le> binade x" by (simp add: binade_def)
  have "2 powr of_int (binade x) \<le> x"
  proof (cases "binade x = - 1022")
    case True with assms show ?thesis by simp
  next
    case False with ge have "- 1022 < binade x" by simp
    then show ?thesis by (rule binade_lower [OF x])
  qed
  then have "2 powr of_int (binade x) \<le> to_double x" by (rule to_double_lower [OF x])
  moreover have "0 < (2::real) powr of_int (binade x)" by simp
  ultimately show ?thesis by linarith
qed

lemma to_double_3: "to_double 3 = 3"
  using to_double_eqI [of 3 1 "3 * 2 ^ 51"] by (simp add: powr_neg_numeral powr_numeral)

lemma to_double_128: "to_double 128 = 128"
  using to_double_eqI [of 128 7 "2 ^ 52"] by (simp add: powr_neg_numeral powr_numeral)

lemma to_double_256: "to_double 256 = 256"
  using to_double_eqI [of 256 8 "2 ^ 52"] by (simp add: powr_neg_numeral powr_numeral)

text \<open>The doubles of the quotients and products on a canvas of 2 by 75 for the target 3.\<close>

lemma to_double_2_75:
  "to_double (2 / 75) = 7686143364045647 / 2 ^ 58"
  "to_double (3 / (7686143364045647 / 2 ^ 58)) = 7916483719987199 / 2 ^ 46"
  "to_double (1 / (7686143364045647 / 2 ^ 58)) = 75 / 2"
  "to_double (3 * (75 / 2)) = 225 / 2"
  using to_double_eqI [of "2 / 75" "- 6" 7686143364045647]
    to_double_eqI [of "3 / (7686143364045647 / 2 ^ 58)" 6 7916483719987199]
    to_double_eqI [of "1 / (7686143364045647 / 2 ^ 58)" 5 5277655813324800]
    to_double_eqI [of "3 * (75 / 2)" 6 7916483719987200]
  by (simp_all add: powr_neg_numeral powr_numeral)

text \<open>The same on a canvas of 256 by 391 for the target 128.\<close>

lemma to_double_256_391:
  "to_double (256 / 391) = 5897296698756251 / 2 ^ 53"
  "to_double (128 / (5897296698756251 / 2 ^ 53)) = 6878544743366655 / 2 ^ 45"
  "to_double (1 / (5897296698756251 / 2 ^ 53)) = 6878544743366655 / 2 ^ 52"
  "to_double (128 * (6878544743366655 / 2 ^ 52)) = 6878544743366655 / 2 ^ 45"
  using to_double_eqI [of "256 / 391" "- 1" 5897296698756251]
    to_double_eqI [of "128 / (5897296698756251 / 2 ^ 53)" 7 6878544743366655]
    to_double_eqI [of "1 / (5897296698756251 / 2 ^ 53)" 0 6878544743366655]
    to_double_eqI [of "128 * (6878544743366655 / 2 ^ 52)" 7 6878544743366655]
  by (simp_all add: powr_neg_numeral powr_numeral)


section \<open>Sampling at texel centres\<close>

lemma clamp_index_inside: "0 \<le> i \<Longrightarrow> i < int n \<Longrightarrow> clamp_index i n = nat i"
  by (simp add: clamp_index_def)

lemma clamp_index_less: "0 < n \<Longrightarrow> clamp_index i n < n"
  by (auto simp: clamp_index_def)

lemma cell_index_less: "i < w \<Longrightarrow> j < h \<Longrightarrow> j * w + i < w * (h::nat)"
proof -
  assume a: "i < w" "j < h"
  then have "j * w + i < j * w + w" by simp
  also have "\<dots> = (j + 1) * w" by simp
  also from a have "\<dots> \<le> h * w" by (intro mult_le_mono1) simp
  finally show ?thesis by (simp add: mult.commute)
qed

lemma texel_index_less:
  "wf_texture t \<Longrightarrow>
   clamp_index j (tex_height t) * tex_width t + clamp_index i (tex_width t) < length (texels t)"
  by (simp add: wf_texture_def cell_index_less clamp_index_less)

lemma texel_inside:
  "i < tex_width t \<Longrightarrow> j < tex_height t \<Longrightarrow>
   texel t (int i) (int j) = texels t ! (j * tex_width t + i)"
  by (simp add: texel_def clamp_index_inside)

lemma floor_int_half:
  "\<lfloor>real_of_int m + 1/2\<rfloor> = m" "\<lfloor>real_of_int m - 1/2\<rfloor> = m - 1"
  by linarith+

lemma v4_mix_0: "v4_mix a c 0 = a"
  by (simp add: v4_mix_def)

lemma texture2D_centre:
  assumes "0 < tex_width t" "0 < tex_height t"
  shows "texture2D t (centre (tex_width t) (tex_height t) i j) = texel t i j"
proof -
  from assms have pos: "0 < real (tex_width t)" "0 < real (tex_height t)" by simp_all
  show ?thesis
  proof (cases "tex_filter t")
    case NEAREST
    with pos show ?thesis
      by (simp add: texture2D_def centre_def Let_def floor_int_half)
  next
    case LINEAR
    with pos show ?thesis
      by (simp add: texture2D_def centre_def Let_def v4_mix_0)
  qed
qed

lemma frag_row_less: "0 < w \<Longrightarrow> k < w * h \<Longrightarrow> k div w < (h::nat)"
  by (simp add: less_mult_imp_div_less mult.commute)

lemma vUv_frag:
  "0 < w \<Longrightarrow> 0 < h \<Longrightarrow>
   vUv (baseVertexShader ts (fragPosition w h k)) = centre w h (int (k mod w)) (int (k div w))"
  by (simp add: baseVertexShader_def fragPosition_def centre_def Let_def field_simps)

lemma texture2D_vUv:
  assumes "wf_texture t" "k < tex_width t * tex_height t"
  shows "texture2D t (vUv (baseVertexShader ts (fragPosition (tex_width t) (tex_height t) k)))
           = texels t ! k"
proof -
  from assms have pos: "0 < tex_width t" "0 < tex_height t"
    by (simp_all add: wf_texture_def)
  with assms(2) have "texel t (int (k mod tex_width t)) (int (k div tex_width t)) = texels t ! k"
    by (simp add: texel_inside frag_row_less)
  with pos show ?thesis
    by (simp add: vUv_frag texture2D_centre)
qed

section \<open>The pressure loop as an iteration\<close>

declare pressure_loop.simps [simp del]

lemma less_nat_ceiling: "real i < x \<Longrightarrow> i < nat \<lceil>x\<rceil>"
  by linarith

lemma pressure_iteration_config [simp]: "config (pressure_iteration st) = config st"
  by (simp add: pressure_iteration_def Let_def)

lemma pressure_loop_funpow:
  "pressure_loop i st = (pressure_iteration ^^ (nat \<lceil>PRESSURE_ITERATIONS (config st)\<rceil> - i)) st"
proof (induction i st rule: pressure_loop.induct)
  case (1 i st)
  let ?n = "nat \<lceil>PRESSURE_ITERATIONS (config st)\<rceil>"
  show ?case
  proof (cases "real i < PRESSURE_ITERATIONS (config st)")
    case True
    then have "i < ?n" by (rule less_nat_ceiling)
    then have "?n - i = Suc (?n - (i + 1))" by simp
    with True 1 show ?thesis
      by (subst pressure_loop.simps) (simp add: funpow_swap1)
  next
    case False
    then have "?n \<le> i" by linarith
    with False show ?thesis
      by (subst pressure_loop.simps) simp
  qed
qed

lemma pressure_iteration_set_config:
  "pressure_iteration (st\<lparr> config := c \<rparr>) = (pressure_iteration st)\<lparr> config := c \<rparr>"
  by (simp add: pressure_iteration_def Let_def sampler_def simTexelSize_def)

lemma pressure_iterations_set_config:
  "(pressure_iteration ^^ n) (st\<lparr> config := c \<rparr>) = ((pressure_iteration ^^ n) st)\<lparr> config := c \<rparr>"
  by (induction n) (simp_all add: pressure_iteration_set_config)

lemma funpow_config [simp]: "config ((pressure_iteration ^^ n) st) = config st"
  by (induction n) simp_all


section \<open>Facts about allocation and the initial state\<close>

lemma resizeCanvas_config [simp]: "config (resizeCanvas cw ch st) = config st"
  by (simp add: resizeCanvas_def Let_def split: prod.splits)

lemma createFluidSimulation_config: "config (createFluidSimulation cw ch True True) = default_config"
  by (simp add: createFluidSimulation_def Let_def)

lemma resizeCanvas_canvas [simp]:
  "canvas_width (resizeCanvas cw ch st) = cw" "canvas_height (resizeCanvas cw ch st) = ch"
  by (simp_all add: resizeCanvas_def Let_def split: prod.splits)

lemma createFluidSimulation_canvas [simp]:
  "canvas_width (createFluidSimulation cw ch l f) = cw"
  "canvas_height (createFluidSimulation cw ch l f) = ch"
  by (simp_all add: createFluidSimulation_def Let_def)


lemma step_blocks_config [simp]:
  "config (step_curl s) = config s"
  "config (step_vorticity dt s) = config s"
  "config (step_advect_velocity dt s) = config s"
  "config (step_advect_density dt s) = config s"
  "config (step_divergence s) = config s"
  "config (pressure_loop i s) = config s"
  "config (step_gradient_subtract s) = config s"
  by (simp_all add: step_curl_def step_vorticity_def step_advect_velocity_def
      step_advect_density_def step_divergence_def step_gradient_subtract_def Let_def
      pressure_loop_funpow)


section \<open>Draws on the texture store\<close>

lemma length_drawQuad [simp]: "length (drawQuad w h ts frag) = w * h"
  by (simp add: drawQuad_def)

lemma nth_drawQuad:
  "k < w * h \<Longrightarrow> drawQuad w h ts frag ! k = frag (baseVertexShader ts (fragPosition w h k))"
  by (simp add: drawQuad_def)

lemma blend_opaque:
  "vw src = 1 \<Longrightarrow> blend_one_minus_src_alpha src dst = src"
  by (cases src) (simp add: blend_one_minus_src_alpha_def)

lemma sampler_blit:
  "sampler (st\<lparr> gl := blit T ts frag (gl st) \<rparr>) f =
     (if fbo_texture f = fbo_texture T
      then (sampler st T)\<lparr> texels :=
             (if gl_blend (gl st)
              then map2 blend_one_minus_src_alpha
                     (drawQuad (fbo_width T) (fbo_height T) ts frag) (texels (sampler st T))
              else drawQuad (fbo_width T) (fbo_height T) ts frag) \<rparr>
      else sampler st f)"
  by (simp add: sampler_def blit_def Let_def)

lemma gl_blend_blit [simp]: "gl_blend (blit T ts frag gs) = gl_blend gs"
  by (simp add: blit_def Let_def)

lemma sampler_same: "fbo_texture f = fbo_texture T \<Longrightarrow> sampler st f = sampler st T"
  by (simp add: sampler_def)

lemma wf_fbo_blit:
  assumes f: "wf_fbo st f" and T: "wf_fbo st T"
  shows "wf_fbo (st\<lparr> gl := blit T ts frag (gl st) \<rparr>) f"
proof (cases "fbo_texture f = fbo_texture T")
  case True
  then have same: "sampler st T = sampler st f" by (simp add: sampler_def)
  from f have w: "tex_width (sampler st f) = fbo_width f"
    and h: "tex_height (sampler st f) = fbo_height f"
    and len: "length (texels (sampler st f)) = fbo_width f * fbo_height f"
    and pos: "0 < fbo_width f" "0 < fbo_height f"
    by (simp_all add: wf_fbo_def wf_texture_def)
  from T have "fbo_width T = fbo_width f" "fbo_height T = fbo_height f"
    unfolding wf_fbo_def same w h by simp_all
  with True w h len pos show ?thesis
    unfolding wf_fbo_def wf_texture_def sampler_blit same by simp
next
  case False
  with f show ?thesis
    unfolding wf_fbo_def sampler_blit by simp
qed

lemma wf_fbo_fields [simp]:
  "wf_fbo (st\<lparr> velocity := v \<rparr>) f = wf_fbo st f"
  "wf_fbo (st\<lparr> density := d \<rparr>) f = wf_fbo st f"
  "wf_fbo (st\<lparr> pressure := p \<rparr>) f = wf_fbo st f"
  by (simp_all add: wf_fbo_def sampler_def)

lemma sim_sized_fields [simp]:
  "sim_sized (st\<lparr> velocity := v \<rparr>) f = sim_sized st f"
  "sim_sized (st\<lparr> density := d \<rparr>) f = sim_sized st f"
  "sim_sized (st\<lparr> pressure := p \<rparr>) f = sim_sized st f"
  by (simp_all add: sim_sized_def)

lemma swap_sides [simp]: "fbo1 (swap d) = fbo2 d" "fbo2 (swap d) = fbo1 d"
  by (simp_all add: swap_def Let_def)

lemma sim_sized_gl [simp]: "sim_sized (st\<lparr> gl := gs \<rparr>) f = sim_sized st f"
  by (simp add: sim_sized_def)

lemma fbos_distinct_gl [simp]: "fbos_distinct (st\<lparr> gl := gs \<rparr>) = fbos_distinct st"
  by (simp add: fbos_distinct_def)

lemma fbos_sized_gl [simp]: "fbos_sized (st\<lparr> gl := gs \<rparr>) = fbos_sized st"
  by (simp add: fbos_sized_def)

lemma fbos_wf_blit:
  assumes "fbos_wf st" "wf_fbo st T"
  shows "fbos_wf (st\<lparr> gl := blit T ts frag (gl st) \<rparr>)"
  using assms unfolding fbos_wf_def
  by (simp add: wf_fbo_blit)

lemma wf_sim_blit:
  assumes "wf_sim st" "wf_fbo st T"
  shows "wf_sim (st\<lparr> gl := blit T ts frag (gl st) \<rparr>)"
  using assms unfolding wf_sim_def
  by (simp add: fbos_wf_blit)

lemma fbos_distinct_swap [simp]:
  "fbos_distinct (st\<lparr> velocity := swap (velocity st) \<rparr>) = fbos_distinct st"
  "fbos_distinct (st\<lparr> density := swap (density st) \<rparr>) = fbos_distinct st"
  "fbos_distinct (st\<lparr> pressure := swap (pressure st) \<rparr>) = fbos_distinct st"
  by (auto simp: fbos_distinct_def)

lemma fbos_wf_swap [simp]:
  "fbos_wf (st\<lparr> velocity := swap (velocity st) \<rparr>) = fbos_wf st"
  "fbos_wf (st\<lparr> density := swap (density st) \<rparr>) = fbos_wf st"
  "fbos_wf (st\<lparr> pressure := swap (pressure st) \<rparr>) = fbos_wf st"
  by (auto simp: fbos_wf_def)

lemma fbos_sized_swap [simp]:
  "fbos_sized (st\<lparr> velocity := swap (velocity st) \<rparr>) = fbos_sized st"
  "fbos_sized (st\<lparr> density := swap (density st) \<rparr>) = fbos_sized st"
  "fbos_sized (st\<lparr> pressure := swap (pressure st) \<rparr>) = fbos_sized st"
  by (auto simp: fbos_sized_def)

lemma wf_sim_swap [simp]:
  "wf_sim (st\<lparr> velocity := swap (velocity st) \<rparr>) = wf_sim st"
  "wf_sim (st\<lparr> density := swap (density st) \<rparr>) = wf_sim st"
  "wf_sim (st\<lparr> pressure := swap (pressure st) \<rparr>) = wf_sim st"
  by (simp_all add: wf_sim_def)

lemma wf_sim_swap_gl:
  "wf_sim (st\<lparr> gl := gs, velocity := swap (velocity st) \<rparr>) = wf_sim (st\<lparr> gl := gs \<rparr>)"
  "wf_sim (st\<lparr> gl := gs, density := swap (density st) \<rparr>) = wf_sim (st\<lparr> gl := gs \<rparr>)"
  "wf_sim (st\<lparr> gl := gs, pressure := swap (pressure st) \<rparr>) = wf_sim (st\<lparr> gl := gs \<rparr>)"
  using wf_sim_swap(1) [of "st\<lparr> gl := gs \<rparr>"] wf_sim_swap(2) [of "st\<lparr> gl := gs \<rparr>"]
    wf_sim_swap(3) [of "st\<lparr> gl := gs \<rparr>"]
  by simp_all

lemma createFBO_eq:
  "createFBO w h p gs =
     (\<lparr> fbo_texture = gl_next gs, fbo_width = nat w, fbo_height = nat h \<rparr>,
      gs\<lparr> gl_textures := (gl_textures gs)(gl_next gs := blank w h p),
          gl_next := Suc (gl_next gs) \<rparr>)"
  by (simp add: createFBO_def Let_def blank_def)

lemma createDoubleFBO_eq:
  "createDoubleFBO w h p gs =
     (\<lparr> fbo1 = \<lparr> fbo_texture = gl_next gs, fbo_width = nat w, fbo_height = nat h \<rparr>,
        fbo2 = \<lparr> fbo_texture = Suc (gl_next gs), fbo_width = nat w, fbo_height = nat h \<rparr> \<rparr>,
      gs\<lparr> gl_textures := (gl_textures gs)
             (gl_next gs := blank w h p, Suc (gl_next gs) := blank w h p),
          gl_next := Suc (Suc (gl_next gs)) \<rparr>)"
  by (simp add: createDoubleFBO_def createFBO_eq)

lemma resizeCanvas_eq:
  "resizeCanvas cw ch st0 =
     (let st = st0\<lparr> canvas_width := cw, canvas_height := ch \<rparr>;
          sr = getResolution st (SIM_RESOLUTION (config st));
          dr = getResolution st (DYE_RESOLUTION (config st));
          p = (if supportLinearFiltering st then LINEAR else NEAREST);
          n = gl_next (gl st);
          fb = (\<lambda>i rs. \<lparr> fbo_texture = n + i, fbo_width = nat (width rs), fbo_height = nat (height rs) \<rparr>)
      in st\<lparr> simRes := sr, dyeRes := dr,
             density := \<lparr> fbo1 = fb 0 dr, fbo2 = fb 1 dr \<rparr>,
             velocity := \<lparr> fbo1 = fb 2 sr, fbo2 = fb 3 sr \<rparr>,
             divergence := fb 4 sr, curl := fb 5 sr,
             pressure := \<lparr> fbo1 = fb 6 sr, fbo2 = fb 7 sr \<rparr>,
             gl := (gl st)\<lparr> gl_textures := (gl_textures (gl st))
                      (n := blank (width dr) (height dr) p,
                       n + 1 := blank (width dr) (height dr) p,
                       n + 2 := blank (width sr) (height sr) p,
                       n + 3 := blank (width sr) (height sr) p,
                       n + 4 := blank (width sr) (height sr) NEAREST,
                       n + 5 := blank (width sr) (height sr) NEAREST,
                       n + 6 := blank (width sr) (height sr) NEAREST,
                       n + 7 := blank (width sr) (height sr) NEAREST),
                    gl_next := n + 8 \<rparr> \<rparr>)"
  by (simp add: resizeCanvas_def createDoubleFBO_eq createFBO_eq Let_def eval_nat_numeral)

lemma wf_sim_resizeCanvas:
  assumes "0 < width (getResolution (st\<lparr> canvas_width := cw, canvas_height := ch \<rparr>) (SIM_RESOLUTION (config st)))"
    and "0 < height (getResolution (st\<lparr> canvas_width := cw, canvas_height := ch \<rparr>) (SIM_RESOLUTION (config st)))"
    and "0 < width (getResolution (st\<lparr> canvas_width := cw, canvas_height := ch \<rparr>) (DYE_RESOLUTION (config st)))"
    and "0 < height (getResolution (st\<lparr> canvas_width := cw, canvas_height := ch \<rparr>) (DYE_RESOLUTION (config st)))"
  shows "wf_sim (resizeCanvas cw ch st)"
proof -
  have d: "fbos_distinct (resizeCanvas cw ch st)"
    by (simp add: resizeCanvas_eq Let_def fbos_distinct_def)
  have s: "fbos_sized (resizeCanvas cw ch st)"
    using assms by (simp add: resizeCanvas_eq Let_def fbos_sized_def sim_sized_def)
  have w: "fbos_wf (resizeCanvas cw ch st)"
    using assms
    by (simp add: resizeCanvas_eq Let_def fbos_wf_def wf_fbo_def sampler_def wf_texture_def
        blank_def)
  from d s w show ?thesis by (simp add: wf_sim_def)
qed

lemma sampler_blit_pass:
  assumes "wf_fbo st T" "\<not> gl_blend (gl st)"
  shows "sampler (st\<lparr> gl := blit T ts frag (gl st) \<rparr>) f =
           (if fbo_texture f = fbo_texture T then pass (sampler st T) ts frag else sampler st f)"
  using assms by (simp add: sampler_blit pass_def wf_fbo_def)

lemma sampler_fields [simp]:
  "sampler (st\<lparr> velocity := v \<rparr>) f = sampler st f"
  "sampler (st\<lparr> density := d \<rparr>) f = sampler st f"
  "sampler (st\<lparr> pressure := p \<rparr>) f = sampler st f"
  by (simp_all add: sampler_def)

lemma fbos_distinctD:
  assumes "fbos_distinct st"
  shows "fbo_texture (fbo1 (velocity st)) \<noteq> fbo_texture (fbo2 (velocity st))"
    "fbo_texture (fbo1 (velocity st)) \<noteq> fbo_texture (fbo1 (density st))"
    "fbo_texture (fbo1 (velocity st)) \<noteq> fbo_texture (fbo2 (density st))"
    "fbo_texture (fbo1 (velocity st)) \<noteq> fbo_texture (fbo1 (pressure st))"
    "fbo_texture (fbo1 (velocity st)) \<noteq> fbo_texture (fbo2 (pressure st))"
    "fbo_texture (fbo1 (velocity st)) \<noteq> fbo_texture (divergence st)"
    "fbo_texture (fbo1 (velocity st)) \<noteq> fbo_texture (curl st)"
    "fbo_texture (fbo2 (velocity st)) \<noteq> fbo_texture (fbo1 (density st))"
    "fbo_texture (fbo2 (velocity st)) \<noteq> fbo_texture (fbo2 (density st))"
    "fbo_texture (fbo2 (velocity st)) \<noteq> fbo_texture (fbo1 (pressure st))"
    "fbo_texture (fbo2 (velocity st)) \<noteq> fbo_texture (fbo2 (pressure st))"
    "fbo_texture (fbo2 (velocity st)) \<noteq> fbo_texture (divergence st)"
    "fbo_texture (fbo2 (velocity st)) \<noteq> fbo_texture (curl st)"
    "fbo_texture (fbo1 (density st)) \<noteq> fbo_texture (fbo2 (density st))"
    "fbo_texture (fbo1 (density st)) \<noteq> fbo_texture (fbo1 (pressure st))"
    "fbo_texture (fbo1 (density st)) \<noteq> fbo_texture (fbo2 (pressure st))"
    "fbo_texture (fbo1 (density st)) \<noteq> fbo_texture (divergence st)"
    "fbo_texture (fbo1 (density st)) \<noteq> fbo_texture (curl st)"
    "fbo_texture (fbo2 (density st)) \<noteq> fbo_texture (fbo1 (pressure st))"
    "fbo_texture (fbo2 (density st)) \<noteq> fbo_texture (fbo2 (pressure st))"
    "fbo_texture (fbo2 (density st)) \<noteq> fbo_texture (divergence st)"
    "fbo_texture (fbo2 (density st)) \<noteq> fbo_texture (curl st)"
    "fbo_texture (fbo1 (pressure st)) \<noteq> fbo_texture (fbo2 (pressure st))"
    "fbo_texture (fbo1 (pressure st)) \<noteq> fbo_texture (divergence st)"
    "fbo_texture (fbo1 (pressure st)) \<noteq> fbo_texture (curl st)"
    "fbo_texture (fbo2 (pressure st)) \<noteq> fbo_texture (divergence st)"
    "fbo_texture (fbo2 (pressure st)) \<noteq> fbo_texture (curl st)"
    "fbo_texture (divergence st) \<noteq> fbo_texture (curl st)"
  using assms by (simp_all add: fbos_distinct_def)

lemmas fbos_distinct_neq = fbos_distinctD fbos_distinctD [symmetric]

lemma wf_simD:
  assumes "wf_sim st"
  shows "fbos_distinct st" "fbos_wf st" "fbos_sized st"
    "wf_fbo st (fbo1 (velocity st))" "wf_fbo st (fbo2 (velocity st))"
    "wf_fbo st (fbo1 (density st))" "wf_fbo st (fbo2 (density st))"
    "wf_fbo st (fbo1 (pressure st))" "wf_fbo st (fbo2 (pressure st))"
    "wf_fbo st (divergence st)" "wf_fbo st (curl st)"
  using assms by (simp_all add: wf_sim_def fbos_wf_def)

lemma fields_step_curl:
  assumes "wf_sim st" "\<not> gl_blend (gl st)"
  shows "fields_of (step_curl st) =
     (fields_of st)\<lparr> curl_field :=
         pass (curl_field (fields_of st)) (simTexelSize st)
           (curlShader (velocity_read (fields_of st))) \<rparr>"
  unfolding step_curl_def Let_def fields_of_def read_fbo_def write_fbo_def
  by (simp add: sampler_blit_pass [OF wf_simD(11) [OF assms(1)] assms(2)]
      fbos_distinct_neq [OF wf_simD(1) [OF assms(1)]])

lemma fields_step_vorticity:
  assumes "wf_sim st" "\<not> gl_blend (gl st)"
  shows "fields_of (step_vorticity dt st) =
     (fields_of st)\<lparr> velocity_read :=
         pass (velocity_write (fields_of st)) (simTexelSize st)
           (vorticityShader (velocity_read (fields_of st)) (curl_field (fields_of st))
              (CURL (config st)) dt),
       velocity_write := velocity_read (fields_of st) \<rparr>"
  unfolding step_vorticity_def Let_def fields_of_def read_fbo_def write_fbo_def
  by (simp add: sampler_blit_pass [OF wf_simD(5) [OF assms(1)] assms(2)]
      fbos_distinct_neq [OF wf_simD(1) [OF assms(1)]])

lemma fields_step_advect_velocity:
  assumes "wf_sim st" "\<not> gl_blend (gl st)"
  shows "fields_of (step_advect_velocity dt st) =
     (fields_of st)\<lparr> velocity_read :=
         pass (velocity_write (fields_of st)) (simTexelSize st)
           (advectionShader (velocity_read (fields_of st)) (velocity_read (fields_of st))
              (simTexelSize st) dt (VELOCITY_DISSIPATION (config st))),
       velocity_write := velocity_read (fields_of st) \<rparr>"
  unfolding step_advect_velocity_def Let_def fields_of_def read_fbo_def write_fbo_def
  by (simp add: sampler_blit_pass [OF wf_simD(5) [OF assms(1)] assms(2)]
      fbos_distinct_neq [OF wf_simD(1) [OF assms(1)]])

lemma fields_step_advect_density:
  assumes "wf_sim st" "\<not> gl_blend (gl st)"
  shows "fields_of (step_advect_density dt st) =
     (fields_of st)\<lparr> dye_read :=
         pass (dye_write (fields_of st)) (simTexelSize st)
           (advectionShader (velocity_read (fields_of st)) (dye_read (fields_of st))
              (simTexelSize st) dt (DENSITY_DISSIPATION (config st))),
       dye_write := dye_read (fields_of st) \<rparr>"
  unfolding step_advect_density_def Let_def fields_of_def read_fbo_def write_fbo_def
  by (simp add: sampler_blit_pass [OF wf_simD(7) [OF assms(1)] assms(2)]
      fbos_distinct_neq [OF wf_simD(1) [OF assms(1)]])

lemma fields_step_divergence:
  assumes "wf_sim st" "\<not> gl_blend (gl st)"
  shows "fields_of (step_divergence st) =
     (fields_of st)\<lparr> divergence_field :=
         pass (divergence_field (fields_of st)) (simTexelSize st)
           (divergenceShader (velocity_read (fields_of st))) \<rparr>"
  unfolding step_divergence_def Let_def fields_of_def read_fbo_def write_fbo_def
  by (simp add: sampler_blit_pass [OF wf_simD(10) [OF assms(1)] assms(2)]
      fbos_distinct_neq [OF wf_simD(1) [OF assms(1)]])

lemma fields_pressure_iteration:
  assumes "wf_sim st" "\<not> gl_blend (gl st)"
  shows "fields_of (pressure_iteration st) =
     (fields_of st)\<lparr> pressure_read :=
         pass (pressure_write (fields_of st)) (simTexelSize st)
           (pressureShader (pressure_read (fields_of st)) (divergence_field (fields_of st))),
       pressure_write := pressure_read (fields_of st) \<rparr>"
  unfolding pressure_iteration_def Let_def fields_of_def read_fbo_def write_fbo_def
  by (simp add: sampler_blit_pass [OF wf_simD(9) [OF assms(1)] assms(2)]
      fbos_distinct_neq [OF wf_simD(1) [OF assms(1)]])

lemma fields_step_gradient_subtract:
  assumes "wf_sim st" "\<not> gl_blend (gl st)"
  shows "fields_of (step_gradient_subtract st) =
     (fields_of st)\<lparr> velocity_read :=
         pass (velocity_write (fields_of st)) (simTexelSize st)
           (gradientSubtractShader (pressure_read (fields_of st)) (velocity_read (fields_of st))),
       velocity_write := velocity_read (fields_of st) \<rparr>"
  unfolding step_gradient_subtract_def Let_def fields_of_def read_fbo_def write_fbo_def
  by (simp add: sampler_blit_pass [OF wf_simD(5) [OF assms(1)] assms(2)]
      fbos_distinct_neq [OF wf_simD(1) [OF assms(1)]])

lemma wf_sim_blocks:
  assumes "wf_sim st"
  shows "wf_sim (step_curl st)" "wf_sim (step_vorticity dt st)"
    "wf_sim (step_advect_velocity dt st)" "wf_sim (step_advect_density dt st)"
    "wf_sim (step_divergence st)" "wf_sim (pressure_iteration st)"
    "wf_sim (step_gradient_subtract st)"
  unfolding step_curl_def step_vorticity_def step_advect_velocity_def step_advect_density_def
    step_divergence_def pressure_iteration_def step_gradient_subtract_def Let_def
    read_fbo_def write_fbo_def
  using wf_simD [OF assms] assms
  by (simp_all add: wf_sim_blit wf_sim_swap_gl)

lemma gl_blend_blocks [simp]:
  "gl_blend (gl (step_curl st)) = gl_blend (gl st)"
  "gl_blend (gl (step_vorticity dt st)) = gl_blend (gl st)"
  "gl_blend (gl (step_advect_velocity dt st)) = gl_blend (gl st)"
  "gl_blend (gl (step_advect_density dt st)) = gl_blend (gl st)"
  "gl_blend (gl (step_divergence st)) = gl_blend (gl st)"
  "gl_blend (gl (pressure_iteration st)) = gl_blend (gl st)"
  "gl_blend (gl (step_gradient_subtract st)) = gl_blend (gl st)"
  by (simp_all add: step_curl_def step_vorticity_def step_advect_velocity_def
      step_advect_density_def step_divergence_def pressure_iteration_def
      step_gradient_subtract_def Let_def)

lemma simTexelSize_blocks [simp]:
  "simTexelSize (step_curl st) = simTexelSize st"
  "simTexelSize (step_vorticity dt st) = simTexelSize st"
  "simTexelSize (step_advect_velocity dt st) = simTexelSize st"
  "simTexelSize (step_advect_density dt st) = simTexelSize st"
  "simTexelSize (step_divergence st) = simTexelSize st"
  "simTexelSize (pressure_iteration st) = simTexelSize st"
  "simTexelSize (step_gradient_subtract st) = simTexelSize st"
  by (simp_all add: step_curl_def step_vorticity_def step_advect_velocity_def
      step_advect_density_def step_divergence_def pressure_iteration_def
      step_gradient_subtract_def Let_def simTexelSize_def)

lemma pressure_iterations_inv:
  assumes "wf_sim st"
  shows "wf_sim ((pressure_iteration ^^ n) st)"
    and "gl_blend (gl ((pressure_iteration ^^ n) st)) = gl_blend (gl st)"
    and "simTexelSize ((pressure_iteration ^^ n) st) = simTexelSize st"
  using assms by (induction n) (simp_all add: wf_sim_blocks)

lemma fields_pressure_iterations:
  assumes "wf_sim st" "\<not> gl_blend (gl st)"
  shows "fields_of ((pressure_iteration ^^ n) st) =
     (fields_of st)\<lparr>
        pressure_read := fst ((jacobi (simTexelSize st) (divergence_field (fields_of st)) ^^ n)
                          (pressure_read (fields_of st), pressure_write (fields_of st))),
        pressure_write := snd ((jacobi (simTexelSize st) (divergence_field (fields_of st)) ^^ n)
                          (pressure_read (fields_of st), pressure_write (fields_of st))) \<rparr>"
proof (induction n)
  case 0
  show ?case by simp
next
  case (Suc n)
  let ?s = "(pressure_iteration ^^ n) st"
  have "fields_of (pressure_iteration ?s) =
     (fields_of ?s)\<lparr> pressure_read :=
         pass (pressure_write (fields_of ?s)) (simTexelSize ?s)
           (pressureShader (pressure_read (fields_of ?s)) (divergence_field (fields_of ?s))),
       pressure_write := pressure_read (fields_of ?s) \<rparr>"
    using assms by (intro fields_pressure_iteration) (simp_all add: pressure_iterations_inv)
  then show ?case
    using assms(1)
    by (simp add: Suc pressure_iterations_inv jacobi_def)
qed

lemma pressure_iterations_pressure:
  "pressure ((pressure_iteration ^^ n) st) = (swap ^^ n) (pressure st)"
  by (induction n) (simp_all add: pressure_iteration_def Let_def)

lemma varyings_frag:
  assumes "0 < w" "0 < h"
  shows "baseVertexShader (Vec2 (1 / real w) (1 / real h)) (fragPosition w h k) =
     \<lparr> vUv = centre w h (int (k mod w)) (int (k div w)),
       vL = centre w h (int (k mod w) - 1) (int (k div w)),
       vR = centre w h (int (k mod w) + 1) (int (k div w)),
       vT = centre w h (int (k mod w)) (int (k div w) + 1),
       vB = centre w h (int (k mod w)) (int (k div w) - 1) \<rparr>"
  using assms
  by (simp add: baseVertexShader_def fragPosition_def centre_def Let_def v2_add_def v2_sub_def
      field_simps)

lemma cell_div_mod: "i < w \<Longrightarrow> (j * w + i) mod w = i" "i < w \<Longrightarrow> (j * w + i) div w = (j::nat)"
  by simp_all

lemma texel_pass:
  assumes "i < tex_width q" "j < tex_height q"
  shows "texel (pass q ts frag) (int i) (int j) =
           frag (baseVertexShader ts (fragPosition (tex_width q) (tex_height q) (j * tex_width q + i)))"
proof -
  from assms have "j * tex_width q + i < tex_width q * tex_height q"
    by (rule cell_index_less)
  moreover have "texel (pass q ts frag) (int i) (int j) = texels (pass q ts frag) ! (j * tex_width q + i)"
    using assms texel_inside [of i "pass q ts frag" j] by (simp add: pass_def)
  ultimately show ?thesis
    by (simp add: pass_def nth_drawQuad)
qed

lemma pressure_cell:
  assumes "0 < w" "0 < h" "tex_width p = w" "tex_height p = h" "tex_width q = w" "tex_height q = h"
    "tex_width dv = w" "tex_height dv = h" "i < w" "j < h"
  shows "texel (pass q (Vec2 (1 / real w) (1 / real h)) (pressureShader p dv)) (int i) (int j) =
     Vec4 ((vx (texel p (int i - 1) (int j)) + vx (texel p (int i + 1) (int j)) +
            vx (texel p (int i) (int j - 1)) + vx (texel p (int i) (int j + 1)) -
            vx (texel dv (int i) (int j))) * (1/4)) 0 0 1"
proof -
  have c: "texture2D p (centre w h a b) = texel p a b"
    "texture2D dv (centre w h a b) = texel dv a b" for a b
    using assms texture2D_centre [of p a b] texture2D_centre [of dv a b] by simp_all
  from assms show ?thesis
    by (simp add: texel_pass varyings_frag cell_div_mod pressureShader_def Let_def c)
qed

lemma jacobi_sizes:
  assumes "tex_width q = tex_width p" "tex_height q = tex_height p"
  shows "tex_width (fst ((jacobi ts dv ^^ m) (p, q))) = tex_width p \<and>
         tex_height (fst ((jacobi ts dv ^^ m) (p, q))) = tex_height p \<and>
         tex_width (snd ((jacobi ts dv ^^ m) (p, q))) = tex_width p \<and>
         tex_height (snd ((jacobi ts dv ^^ m) (p, q))) = tex_height p"
proof (induction m)
  case 0
  from assms show ?case by simp
next
  case (Suc m)
  then show ?case
    by (simp add: jacobi_def pass_def)
qed

lemma simTexelSize_sized:
  assumes "sim_sized st f"
  shows "simTexelSize st = Vec2 (1 / real (fbo_width f)) (1 / real (fbo_height f))"
proof -
  from assms have "width (simRes st) = int (fbo_width f)" "height (simRes st) = int (fbo_height f)"
    by (simp_all add: sim_sized_def)
  then show ?thesis
    by (simp add: simTexelSize_def)
qed

lemma wf_fboD:
  assumes "wf_fbo st f"
  shows "tex_width (sampler st f) = fbo_width f" "tex_height (sampler st f) = fbo_height f"
    "0 < fbo_width f" "0 < fbo_height f" "wf_texture (sampler st f)"
    "length (texels (sampler st f)) = fbo_width f * fbo_height f"
  using assms by (auto simp: wf_fbo_def wf_texture_def)

lemma fbos_sizedD:
  assumes "fbos_sized st"
  shows "sim_sized st (fbo1 (velocity st))" "sim_sized st (fbo2 (velocity st))"
    "sim_sized st (fbo1 (pressure st))" "sim_sized st (fbo2 (pressure st))"
    "sim_sized st (divergence st)" "sim_sized st (curl st)"
    "fbo_width (fbo1 (density st)) = fbo_width (fbo2 (density st))"
    "fbo_height (fbo1 (density st)) = fbo_height (fbo2 (density st))"
  using assms by (simp_all add: fbos_sized_def)

lemma sim_sized_same:
  "sim_sized st f \<Longrightarrow> sim_sized st f' \<Longrightarrow>
   fbo_width f' = fbo_width f \<and> fbo_height f' = fbo_height f"
  by (simp add: sim_sized_def)

lemma resizeCanvas_gl_blend [simp]: "gl_blend (gl (resizeCanvas cw ch st)) = gl_blend (gl st)"
  by (simp add: resizeCanvas_eq Let_def)

lemma setConfig_fields [simp]:
  "gl (setConfig nc st) = gl st"
  "canvas_width (setConfig nc st) = canvas_width st"
  "canvas_height (setConfig nc st) = canvas_height st"
  "supportLinearFiltering (setConfig nc st) = supportLinearFiltering st"
  by (simp_all add: setConfig_def)

lemma createFluidSimulation_gl_blend [simp]:
  "gl_blend (gl (createFluidSimulation cw ch l f)) = False"
  by (simp add: createFluidSimulation_def Let_def)

lemma small_sim_config:
  "config small_sim =
     default_config\<lparr> SIM_RESOLUTION := 1, DYE_RESOLUTION := 1, DENSITY_DISSIPATION := 99/100,
       VELOCITY_DISSIPATION := 98/100, CURL := 4, SPLAT_RADIUS := 100, SPLAT_FORCE := 5000 \<rparr>"
  by (simp add: small_sim_def small_config_def no_change_def setConfig_def assign_def
      createFluidSimulation_config default_config_def)

lemma small_sim_canvas [simp]: "canvas_width small_sim = 2" "canvas_height small_sim = 1"
  by (simp_all add: small_sim_def)

lemma small_sim_blend [simp]: "\<not> gl_blend (gl small_sim)"
  by (simp add: small_sim_def)

lemma small_sim_wf: "wf_sim small_sim"
  unfolding small_sim_def
  by (rule wf_sim_resizeCanvas)
     (simp_all add: getResolution_def js_round_def to_double_2 small_config_def no_change_def setConfig_def
        assign_def createFluidSimulation_config default_config_def)


section \<open>The step and the splat on field values\<close>

lemma wf_sim_other_fields [simp]:
  "wf_sim (st\<lparr> lastTime := t \<rparr>) = wf_sim st"
  "wf_sim (st\<lparr> pointer := p \<rparr>) = wf_sim st"
  "wf_sim (st\<lparr> config := c \<rparr>) = wf_sim st"
  "wf_sim (st\<lparr> gl := (gl st)\<lparr> gl_blend := bl \<rparr> \<rparr>) = wf_sim st"
  by (simp_all add: wf_sim_def fbos_distinct_def fbos_wf_def fbos_sized_def wf_fbo_def
      sim_sized_def sampler_def)

lemma fields_other_fields [simp]:
  "fields_of (st\<lparr> lastTime := t \<rparr>) = fields_of st"
  "fields_of (st\<lparr> pointer := p \<rparr>) = fields_of st"
  "fields_of (st\<lparr> config := c \<rparr>) = fields_of st"
  "fields_of (st\<lparr> gl := (gl st)\<lparr> gl_blend := bl \<rparr> \<rparr>) = fields_of st"
  by (simp_all add: fields_of_def sampler_def)

lemma simTexelSize_other_fields [simp]:
  "simTexelSize (st\<lparr> lastTime := t \<rparr>) = simTexelSize st"
  "simTexelSize (st\<lparr> pointer := p \<rparr>) = simTexelSize st"
  "simTexelSize (st\<lparr> config := c \<rparr>) = simTexelSize st"
  "simTexelSize (st\<lparr> gl := gs \<rparr>) = simTexelSize st"
  by (simp_all add: simTexelSize_def)

lemma fields_step:
  assumes wf: "wf_sim st"
  shows "fields_of (step dt st) =
    (let F = fields_of st; ts = simTexelSize st; c = config st;
         cu = pass (curl_field F) ts (curlShader (velocity_read F));
         v1 = pass (velocity_write F) ts (vorticityShader (velocity_read F) cu (CURL c) dt);
         v2 = pass (velocity_read F) ts (advectionShader v1 v1 ts dt (VELOCITY_DISSIPATION c));
         d1 = pass (dye_write F) ts (advectionShader v2 (dye_read F) ts dt (DENSITY_DISSIPATION c));
         dv = pass (divergence_field F) ts (divergenceShader v2);
         pq = (jacobi ts dv ^^ nat \<lceil>PRESSURE_ITERATIONS c\<rceil>) (pressure_read F, pressure_write F);
         v3 = pass v1 ts (gradientSubtractShader (fst pq) v2)
     in \<lparr> velocity_read = v3, velocity_write = v2, dye_read = d1, dye_write = dye_read F,
          pressure_read = fst pq, pressure_write = snd pq, divergence_field = dv,
          curl_field = cu \<rparr>)"
proof -
  define s0 where "s0 = st\<lparr> gl := (gl st)\<lparr> gl_blend := False \<rparr> \<rparr>"
  define s1 where "s1 = step_curl s0"
  define s2 where "s2 = step_vorticity dt s1"
  define s3 where "s3 = step_advect_velocity dt s2"
  define s4 where "s4 = step_advect_density dt s3"
  define s5 where "s5 = step_divergence s4"
  define s6 where "s6 = (pressure_iteration ^^ nat \<lceil>PRESSURE_ITERATIONS (config st)\<rceil>) s5"
  have w0: "wf_sim s0" and b0: "\<not> gl_blend (gl s0)" and f0: "fields_of s0 = fields_of st"
    and t0: "simTexelSize s0 = simTexelSize st" and c0: "config s0 = config st"
    using wf by (simp_all add: s0_def)
  have w1: "wf_sim s1" and b1: "\<not> gl_blend (gl s1)"
    and t1: "simTexelSize s1 = simTexelSize st" and c1: "config s1 = config st"
    using w0 b0 t0 c0 by (simp_all add: s1_def wf_sim_blocks)
  have w2: "wf_sim s2" and b2: "\<not> gl_blend (gl s2)"
    and t2: "simTexelSize s2 = simTexelSize st" and c2: "config s2 = config st"
    using w1 b1 t1 c1 by (simp_all add: s2_def wf_sim_blocks)
  have w3: "wf_sim s3" and b3: "\<not> gl_blend (gl s3)"
    and t3: "simTexelSize s3 = simTexelSize st" and c3: "config s3 = config st"
    using w2 b2 t2 c2 by (simp_all add: s3_def wf_sim_blocks)
  have w4: "wf_sim s4" and b4: "\<not> gl_blend (gl s4)"
    and t4: "simTexelSize s4 = simTexelSize st" and c4: "config s4 = config st"
    using w3 b3 t3 c3 by (simp_all add: s4_def wf_sim_blocks)
  have w5: "wf_sim s5" and b5: "\<not> gl_blend (gl s5)"
    and t5: "simTexelSize s5 = simTexelSize st" and c5: "config s5 = config st"
    using w4 b4 t4 c4 by (simp_all add: s5_def wf_sim_blocks)
  have w6: "wf_sim s6" and b6: "\<not> gl_blend (gl s6)"
    and t6: "simTexelSize s6 = simTexelSize st" and c6: "config s6 = config st"
    using w5 b5 t5 c5 by (simp_all add: s6_def pressure_iterations_inv)
  have st: "step dt st = step_gradient_subtract s6"
    by (simp add: step_def Let_def pressure_loop_funpow s6_def s5_def s4_def s3_def s2_def
        s1_def s0_def)
  let ?F = "fields_of st" and ?ts = "simTexelSize st" and ?c = "config st"
  let ?cu = "pass (curl_field ?F) ?ts (curlShader (velocity_read ?F))"
  let ?v1 = "pass (velocity_write ?F) ?ts (vorticityShader (velocity_read ?F) ?cu (CURL ?c) dt)"
  let ?v2 = "pass (velocity_read ?F) ?ts (advectionShader ?v1 ?v1 ?ts dt (VELOCITY_DISSIPATION ?c))"
  let ?d1 = "pass (dye_write ?F) ?ts (advectionShader ?v2 (dye_read ?F) ?ts dt (DENSITY_DISSIPATION ?c))"
  let ?dv = "pass (divergence_field ?F) ?ts (divergenceShader ?v2)"
  let ?pq = "(jacobi ?ts ?dv ^^ nat \<lceil>PRESSURE_ITERATIONS ?c\<rceil>) (pressure_read ?F, pressure_write ?F)"
  let ?v3 = "pass ?v1 ?ts (gradientSubtractShader (fst ?pq) ?v2)"
  have f1: "fields_of s1 = ?F\<lparr> curl_field := ?cu \<rparr>"
    unfolding s1_def fields_step_curl [OF w0 b0] f0 t0 ..
  have f2: "fields_of s2 = ?F\<lparr> velocity_read := ?v1, velocity_write := velocity_read ?F,
                                 curl_field := ?cu \<rparr>"
    unfolding s2_def fields_step_vorticity [OF w1 b1] t1 c1 f1 by simp
  have f3: "fields_of s3 = ?F\<lparr> velocity_read := ?v2, velocity_write := ?v1, curl_field := ?cu \<rparr>"
    unfolding s3_def fields_step_advect_velocity [OF w2 b2] t2 c2 f2 by simp
  have f4: "fields_of s4 = ?F\<lparr> velocity_read := ?v2, velocity_write := ?v1, dye_read := ?d1,
                                 dye_write := dye_read ?F, curl_field := ?cu \<rparr>"
    unfolding s4_def fields_step_advect_density [OF w3 b3] t3 c3 f3 by simp
  have f5: "fields_of s5 = ?F\<lparr> velocity_read := ?v2, velocity_write := ?v1, dye_read := ?d1,
                                 dye_write := dye_read ?F, divergence_field := ?dv,
                                 curl_field := ?cu \<rparr>"
    unfolding s5_def fields_step_divergence [OF w4 b4] t4 f4 by simp
  have f6: "fields_of s6 = ?F\<lparr> velocity_read := ?v2, velocity_write := ?v1, dye_read := ?d1,
                                 dye_write := dye_read ?F, pressure_read := fst ?pq,
                                 pressure_write := snd ?pq, divergence_field := ?dv,
                                 curl_field := ?cu \<rparr>"
    unfolding s6_def fields_pressure_iterations [OF w5 b5] t5 f5 by simp
  have f7: "fields_of (step_gradient_subtract s6) =
      ?F\<lparr> velocity_read := ?v3, velocity_write := ?v2, dye_read := ?d1,
          dye_write := dye_read ?F, pressure_read := fst ?pq,
          pressure_write := snd ?pq, divergence_field := ?dv, curl_field := ?cu \<rparr>"
    unfolding fields_step_gradient_subtract [OF w6 b6] t6 f6 by simp
  show ?thesis
    unfolding st Let_def f7 by simp
qed

lemma map2_blend_opaque:
  assumes "length ys = length xs" "\<forall>k < length xs. vw (xs ! k) = 1"
  shows "map2 blend_one_minus_src_alpha xs ys = xs"
  using assms by (intro nth_equalityI) (simp_all add: blend_opaque)

lemma sampler_blit_opaque:
  assumes T: "wf_fbo st T" and opaque: "\<And>v. vw (frag v) = 1"
  shows "sampler (st\<lparr> gl := blit T ts frag (gl st) \<rparr>) f =
           (if fbo_texture f = fbo_texture T then pass (sampler st T) ts frag else sampler st f)"
proof -
  have "map2 blend_one_minus_src_alpha (drawQuad (fbo_width T) (fbo_height T) ts frag)
          (texels (sampler st T)) = drawQuad (fbo_width T) (fbo_height T) ts frag"
    using wf_fboD [OF T] opaque by (intro map2_blend_opaque) (simp_all add: nth_drawQuad)
  with wf_fboD [OF T] show ?thesis
    by (simp add: sampler_blit pass_def)
qed

lemma splatShader_opaque: "vw (splatShader t a c pt rad v) = 1"
  by (simp add: splatShader_def Let_def)

lemma fields_splat:
  assumes wf: "wf_sim st"
  shows "fields_of (splat x y dx dy color st) =
    (let F = fields_of st;
         aspectRatio = real (canvas_width st) / real (canvas_height st);
         radius = SPLAT_RADIUS (config st) / 100
     in F\<lparr> velocity_read := pass (velocity_write F) (Vec2 0 0)
              (splatShader (velocity_read F) aspectRatio (Vec3 dx dy 0) (Vec2 x y) radius),
            velocity_write := velocity_read F,
            dye_read := pass (dye_write F) (Vec2 0 0)
              (splatShader (dye_read F) aspectRatio
                 (Vec3 (col_r color) (col_g color) (col_b color)) (Vec2 x y) radius),
            dye_write := dye_read F \<rparr>)"
    and "wf_sim (splat x y dx dy color st)"
proof -
  let ?a = "real (canvas_width st) / real (canvas_height st)"
  let ?r = "SPLAT_RADIUS (config st) / 100"
  let ?F = "fields_of st"
  let ?sv = "splatShader (sampler st (read_fbo (velocity st))) ?a (Vec3 dx dy 0) (Vec2 x y) ?r"
  define s1 where "s1 = st\<lparr> gl := blit (write_fbo (velocity st)) (Vec2 0 0) ?sv (gl st) \<rparr>"
  define s2 where "s2 = s1\<lparr> velocity := swap (velocity s1) \<rparr>"
  let ?sd = "splatShader (sampler s2 (read_fbo (density s2))) ?a
               (Vec3 (col_r color) (col_g color) (col_b color)) (Vec2 x y) ?r"
  define s3 where "s3 = s2\<lparr> gl := blit (write_fbo (density s2)) (Vec2 0 0) ?sd (gl s2) \<rparr>"
  have sp: "splat x y dx dy color st = s3\<lparr> density := swap (density s3) \<rparr>"
    by (simp add: splat_def Let_def s3_def s2_def s1_def)
  note d = wf_simD [OF wf]
  have w1: "wf_sim s1"
    unfolding s1_def write_fbo_def by (rule wf_sim_blit [OF wf d(5)])
  have f1: "fields_of s1 = ?F\<lparr> velocity_write :=
      pass (velocity_write ?F) (Vec2 0 0)
        (splatShader (velocity_read ?F) ?a (Vec3 dx dy 0) (Vec2 x y) ?r) \<rparr>"
    unfolding s1_def fields_of_def read_fbo_def write_fbo_def
    by (simp add: sampler_blit_opaque [OF d(5) splatShader_opaque] fbos_distinct_neq [OF d(1)])
  have w2: "wf_sim s2"
    using w1 by (simp add: s2_def)
  have f2: "fields_of s2 = ?F\<lparr> velocity_read :=
      pass (velocity_write ?F) (Vec2 0 0)
        (splatShader (velocity_read ?F) ?a (Vec3 dx dy 0) (Vec2 x y) ?r),
      velocity_write := velocity_read ?F \<rparr>"
    using f1 by (simp add: s2_def fields_of_def read_fbo_def write_fbo_def)
  note d2 = wf_simD [OF w2]
  have w3: "wf_sim s3"
    unfolding s3_def write_fbo_def by (rule wf_sim_blit [OF w2 d2(7)])
  have f3: "fields_of s3 = (fields_of s2)\<lparr> dye_write :=
      pass (dye_write (fields_of s2)) (Vec2 0 0)
        (splatShader (dye_read (fields_of s2)) ?a
           (Vec3 (col_r color) (col_g color) (col_b color)) (Vec2 x y) ?r) \<rparr>"
    unfolding s3_def fields_of_def read_fbo_def write_fbo_def
    by (simp add: sampler_blit_opaque [OF d2(7) splatShader_opaque] fbos_distinct_neq [OF d2(1)])
  show "wf_sim (splat x y dx dy color st)"
    unfolding sp using w3 by simp
  have "fields_of (s3\<lparr> density := swap (density s3) \<rparr>) =
      (fields_of s3)\<lparr> dye_read := dye_write (fields_of s3), dye_write := dye_read (fields_of s3) \<rparr>"
    by (simp add: fields_of_def read_fbo_def write_fbo_def)
  then show "fields_of (splat x y dx dy color st) =
    (let F = fields_of st;
         aspectRatio = real (canvas_width st) / real (canvas_height st);
         radius = SPLAT_RADIUS (config st) / 100
     in F\<lparr> velocity_read := pass (velocity_write F) (Vec2 0 0)
              (splatShader (velocity_read F) aspectRatio (Vec3 dx dy 0) (Vec2 x y) radius),
            velocity_write := velocity_read F,
            dye_read := pass (dye_write F) (Vec2 0 0)
              (splatShader (dye_read F) aspectRatio
                 (Vec3 (col_r color) (col_g color) (col_b color)) (Vec2 x y) radius),
            dye_write := dye_read F \<rparr>)"
    unfolding sp Let_def f3 f2 by simp
qed


section \<open>Cells of a splat, and the example state\<close>

lemma splat_cell:
  assumes t: "wf_texture t" and q: "tex_width q = tex_width t" "tex_height q = tex_height t"
    and k: "k < tex_width t * tex_height t"
  shows "texels (pass q ts (splatShader t a c pt rad)) ! k =
     (let p = v2_sub (centre (tex_width t) (tex_height t) (int (k mod tex_width t))
                       (int (k div tex_width t))) pt;
          e = exp (- (v2x p * a * (v2x p * a) + v2y p * v2y p) / rad);
          base = texels t ! k
      in Vec4 (vx base + e * v3x c) (vy base + e * v3y c) (vz base + e * v3z c) 1)"
proof -
  from t have pos: "0 < tex_width t" "0 < tex_height t" by (simp_all add: wf_texture_def)
  have base: "texture2D t (vUv (baseVertexShader ts (fragPosition (tex_width t) (tex_height t) k)))
                = texels t ! k"
    by (rule texture2D_vUv [OF t k])
  have "texels (pass q ts (splatShader t a c pt rad)) ! k =
          splatShader t a c pt rad (baseVertexShader ts (fragPosition (tex_width t) (tex_height t) k))"
    using k by (simp add: pass_def q nth_drawQuad)
  also have "\<dots> = (let p = v2_sub (centre (tex_width t) (tex_height t) (int (k mod tex_width t))
                       (int (k div tex_width t))) pt;
          e = exp (- (v2x p * a * (v2x p * a) + v2y p * v2y p) / rad);
          base = texels t ! k
      in Vec4 (vx base + e * v3x c) (vy base + e * v3y c) (vz base + e * v3z c) 1)"
    unfolding splatShader_def Let_def base
    by (simp add: vUv_frag [OF pos] v2_dot_def v3_add_def v3_scale_def v4_xyz_def)
  finally show ?thesis .
qed

lemma splat_unchanged [simp]:
  "config (splat x y dx dy color st) = config st"
  "canvas_width (splat x y dx dy color st) = canvas_width st"
  "canvas_height (splat x y dx dy color st) = canvas_height st"
  "simRes (splat x y dx dy color st) = simRes st"
  "gl_blend (gl (splat x y dx dy color st)) = gl_blend (gl st)"
  by (simp_all add: splat_def Let_def)

lemma wf_texture_pass:
  "0 < tex_width q \<Longrightarrow> 0 < tex_height q \<Longrightarrow> wf_texture (pass q ts frag)"
  by (simp add: wf_texture_def pass_def)

lemma pass_size [simp]:
  "tex_width (pass q ts frag) = tex_width q" "tex_height (pass q ts frag) = tex_height q"
  "length (texels (pass q ts frag)) = tex_width q * tex_height q"
  by (simp_all add: pass_def)

lemma velocity_textures:
  assumes "wf_sim st"
  shows "wf_texture (velocity_read (fields_of st))" "wf_texture (velocity_write (fields_of st))"
    "tex_width (velocity_write (fields_of st)) = tex_width (velocity_read (fields_of st))"
    "tex_height (velocity_write (fields_of st)) = tex_height (velocity_read (fields_of st))"
    "tex_width (velocity_read (fields_of st)) = fbo_width (read_fbo (velocity st))"
    "tex_height (velocity_read (fields_of st)) = fbo_height (read_fbo (velocity st))"
proof -
  note d = wf_simD [OF assms]
  note sz = fbos_sizedD [OF d(3)]
  show "wf_texture (velocity_read (fields_of st))" "wf_texture (velocity_write (fields_of st))"
    using wf_fboD(5) [OF d(4)] wf_fboD(5) [OF d(5)]
    by (simp_all add: fields_of_def read_fbo_def write_fbo_def)
  show "tex_width (velocity_write (fields_of st)) = tex_width (velocity_read (fields_of st))"
    "tex_height (velocity_write (fields_of st)) = tex_height (velocity_read (fields_of st))"
    using wf_fboD(1,2) [OF d(4)] wf_fboD(1,2) [OF d(5)] sim_sized_same [OF sz(1) sz(2)]
    by (simp_all add: fields_of_def read_fbo_def write_fbo_def)
  show "tex_width (velocity_read (fields_of st)) = fbo_width (read_fbo (velocity st))"
    "tex_height (velocity_read (fields_of st)) = fbo_height (read_fbo (velocity st))"
    using wf_fboD(1,2) [OF d(4)] by (simp_all add: fields_of_def read_fbo_def)
qed

lemma resizeCanvas_linear [simp]:
  "supportLinearFiltering (resizeCanvas cw ch st) = supportLinearFiltering st"
  by (simp add: resizeCanvas_eq Let_def)

lemma createFluidSimulation_linear [simp]:
  "supportLinearFiltering (createFluidSimulation cw ch l f) = l"
  by (simp add: createFluidSimulation_def Let_def)

lemma getResolution_2_1:
  "canvas_width s = 2 \<Longrightarrow> canvas_height s = 1 \<Longrightarrow>
   getResolution s 1 = \<lparr> width = 2, height = 1 \<rparr>"
  by (simp add: getResolution_def js_round_def to_double_2)

lemma small_config_resolutions [simp]:
  "SIM_RESOLUTION (config (setConfig small_config s)) = 1"
  "DYE_RESOLUTION (config (setConfig small_config s)) = 1"
  by (simp_all add: setConfig_def small_config_def assign_def)

lemma resizeCanvas_textures:
  fixes st cw ch
  defines "s \<equiv> st\<lparr> canvas_width := cw, canvas_height := ch \<rparr>"
  defines "sr \<equiv> getResolution s (SIM_RESOLUTION (config st))"
  defines "dr \<equiv> getResolution s (DYE_RESOLUTION (config st))"
  defines "p \<equiv> (if supportLinearFiltering st then LINEAR else NEAREST)"
  defines "r \<equiv> resizeCanvas cw ch st"
  shows "sampler r (fbo1 (velocity r)) = blank (width sr) (height sr) p"
    "sampler r (fbo2 (velocity r)) = blank (width sr) (height sr) p"
    "sampler r (fbo1 (density r)) = blank (width dr) (height dr) p"
    "sampler r (fbo2 (density r)) = blank (width dr) (height dr) p"
    "sampler r (fbo1 (pressure r)) = blank (width sr) (height sr) NEAREST"
    "sampler r (fbo2 (pressure r)) = blank (width sr) (height sr) NEAREST"
    "sampler r (divergence r) = blank (width sr) (height sr) NEAREST"
    "sampler r (curl r) = blank (width sr) (height sr) NEAREST"
    "simRes r = sr"
    "fbo_width (fbo1 (velocity r)) = nat (width sr)"
    "fbo_height (fbo1 (velocity r)) = nat (height sr)"
    "fbo_width (fbo1 (density r)) = nat (width dr)"
    "fbo_height (fbo1 (density r)) = nat (height dr)"
  unfolding r_def s_def sr_def dr_def p_def sampler_def
  by (simp_all add: resizeCanvas_eq Let_def)

lemma small_sim_fields:
  "velocity_read (fields_of small_sim) = blank 2 1 LINEAR"
  "velocity_write (fields_of small_sim) = blank 2 1 LINEAR"
  "dye_read (fields_of small_sim) = blank 2 1 LINEAR"
  "dye_write (fields_of small_sim) = blank 2 1 LINEAR"
  "pressure_read (fields_of small_sim) = blank 2 1 NEAREST"
  "pressure_write (fields_of small_sim) = blank 2 1 NEAREST"
  "fbo_width (read_fbo (velocity small_sim)) = 2"
  "fbo_height (read_fbo (velocity small_sim)) = 1"
  "fbo_width (read_fbo (density small_sim)) = 2"
  "fbo_height (read_fbo (density small_sim)) = 1"
  "simTexelSize small_sim = Vec2 (1/2) 1"
  unfolding small_sim_def fields_of_def read_fbo_def write_fbo_def simTexelSize_def
  by (simp_all add: resizeCanvas_textures getResolution_2_1)

lemma blank_2_1: "texels (blank 2 1 p) = [Vec4 0 0 0 0, Vec4 0 0 0 0]"
  "tex_width (blank 2 1 p) = 2" "tex_height (blank 2 1 p) = 1"
  by (simp_all add: blank_def eval_nat_numeral)

lemma dye_textures:
  assumes "wf_sim st"
  shows "wf_texture (dye_read (fields_of st))" "wf_texture (dye_write (fields_of st))"
    "tex_width (dye_write (fields_of st)) = tex_width (dye_read (fields_of st))"
    "tex_height (dye_write (fields_of st)) = tex_height (dye_read (fields_of st))"
    "tex_width (dye_read (fields_of st)) = fbo_width (read_fbo (density st))"
    "tex_height (dye_read (fields_of st)) = fbo_height (read_fbo (density st))"
proof -
  note d = wf_simD [OF assms]
  note sz = fbos_sizedD [OF d(3)]
  show "wf_texture (dye_read (fields_of st))" "wf_texture (dye_write (fields_of st))"
    using wf_fboD(5) [OF d(6)] wf_fboD(5) [OF d(7)]
    by (simp_all add: fields_of_def read_fbo_def write_fbo_def)
  show "tex_width (dye_write (fields_of st)) = tex_width (dye_read (fields_of st))"
    "tex_height (dye_write (fields_of st)) = tex_height (dye_read (fields_of st))"
    using wf_fboD(1,2) [OF d(6)] wf_fboD(1,2) [OF d(7)] sz(7,8)
    by (simp_all add: fields_of_def read_fbo_def write_fbo_def)
  show "tex_width (dye_read (fields_of st)) = fbo_width (read_fbo (density st))"
    "tex_height (dye_read (fields_of st)) = fbo_height (read_fbo (density st))"
    using wf_fboD(1,2) [OF d(6)] by (simp_all add: fields_of_def read_fbo_def)
qed

lemma small_sim_radius: "SPLAT_RADIUS (config small_sim) = 100"
  by (simp add: small_sim_config default_config_def)

lemma small_velocity_cell0:
  "texels (pass (velocity_write (fields_of small_sim)) (Vec2 0 0)
     (splatShader (velocity_read (fields_of small_sim)) 2 (Vec3 1 0 0) (Vec2 0 (1/2)) rad)) ! 0
   = Vec4 (exp (- (1/4) / rad)) 0 0 1"
proof -
  have t: "wf_texture (blank 2 1 LINEAR)" by (simp add: wf_texture_def blank_def)
  have "texels (pass (blank 2 1 LINEAR) (Vec2 0 0)
           (splatShader (blank 2 1 LINEAR) 2 (Vec3 1 0 0) (Vec2 0 (1/2)) rad)) ! 0
        = Vec4 (exp (- (1/4) / rad)) 0 0 1"
    using splat_cell [OF t, of "blank 2 1 LINEAR" 0 "Vec2 0 0" 2 "Vec3 1 0 0" "Vec2 0 (1/2)" rad]
    by (simp add: blank_2_1 Let_def centre_def v2_sub_def)
  then show ?thesis by (simp add: small_sim_fields)
qed


lemma splat_velocity_cell:
  assumes wf: "wf_sim st"
    and k: "k < fbo_width (read_fbo (velocity st)) * fbo_height (read_fbo (velocity st))"
  shows "texels (velocity_read (fields_of (splat x y dx dy color st))) ! k =
     (let e = gaussian st (fbo_width (read_fbo (velocity st))) (fbo_height (read_fbo (velocity st))) x y k;
          base = texels (velocity_read (fields_of st)) ! k
      in Vec4 (vx base + e * dx) (vy base + e * dy) (vz base) 1)"
proof -
  note vt = velocity_textures [OF wf]
  from k have k': "k < tex_width (velocity_read (fields_of st)) * tex_height (velocity_read (fields_of st))"
    by (simp add: vt(5,6))
  show ?thesis
    unfolding fields_splat(1) [OF wf] Let_def
    using splat_cell [OF vt(1) vt(3,4) k']
    by (simp add: Let_def gaussian_def vt(5,6) centre_def v2_sub_def)
qed

lemma splat_velocity_size:
  assumes wf: "wf_sim st"
  shows "fbo_width (read_fbo (velocity (splat x y dx dy color st))) = fbo_width (read_fbo (velocity st))"
    "fbo_height (read_fbo (velocity (splat x y dx dy color st))) = fbo_height (read_fbo (velocity st))"
    "length (texels (velocity_read (fields_of (splat x y dx dy color st)))) =
       fbo_width (read_fbo (velocity st)) * fbo_height (read_fbo (velocity st))"
proof -
  note vt = velocity_textures [OF wf]
  note vt1 = velocity_textures [OF fields_splat(2) [OF wf, of x y dx dy color]]
  have r: "velocity_read (fields_of (splat x y dx dy color st)) =
      pass (velocity_write (fields_of st)) (Vec2 0 0)
        (splatShader (velocity_read (fields_of st)) (real (canvas_width st) / real (canvas_height st))
           (Vec3 dx dy 0) (Vec2 x y) (SPLAT_RADIUS (config st) / 100))"
    by (simp add: fields_splat(1) [OF wf] Let_def)
  show "fbo_width (read_fbo (velocity (splat x y dx dy color st))) = fbo_width (read_fbo (velocity st))"
    using vt1(5) vt(3,5) unfolding r by simp
  show "fbo_height (read_fbo (velocity (splat x y dx dy color st))) = fbo_height (read_fbo (velocity st))"
    using vt1(6) vt(4,6) unfolding r by simp
  show "length (texels (velocity_read (fields_of (splat x y dx dy color st)))) =
       fbo_width (read_fbo (velocity st)) * fbo_height (read_fbo (velocity st))"
    unfolding r using vt(3-6) by simp
qed

lemma gaussian_splat:
  "gaussian (splat x' y' dx dy color st) w h x y k = gaussian st w h x y k"
  by (simp add: gaussian_def)


section \<open>The frame\<close>

lemma or_zero_id [simp]: "or_zero x = x"
  by (simp add: or_zero_def)

lemma wf_sim_applyInputs: "wf_sim st \<Longrightarrow> wf_sim (applyInputs st)"
  by (simp add: applyInputs_def Let_def fields_splat(2))

lemma fields_render [simp]: "fields_of (render st) = fields_of st"
  by (simp add: render_def)

lemma resizeCanvas_idle [simp]:
  "pointer (resizeCanvas cw ch st) = pointer st"
  "lastTime (resizeCanvas cw ch st) = lastTime st"
  by (simp_all add: resizeCanvas_eq Let_def)

lemma setConfig_idle [simp]:
  "pointer (setConfig nc st) = pointer st"
  "lastTime (setConfig nc st) = lastTime st"
  by (simp_all add: setConfig_def)

lemma createFluidSimulation_idle [simp]:
  "moved (pointer (createFluidSimulation cw ch l f)) = False"
  "lastTime (createFluidSimulation cw ch l f) = 0"
  by (simp_all add: createFluidSimulation_def Let_def)

lemma small_sim_idle [simp]: "moved (pointer small_sim) = False" "lastTime small_sim = 0"
  by (simp_all add: small_sim_def)


section \<open>Advection under a zero velocity\<close>













section \<open>Projection of a field of uniform divergence\<close>

lemma uniform_x_texel:
  assumes "wf_texture t" "uniform_x a t"
  shows "vx (texel t i j) = a"
  using assms texel_index_less [OF assms(1), of j i]
  by (simp add: uniform_x_def texel_def list_all_length)

lemma texture2D_uniform_x:
  assumes "wf_texture t" "uniform_x a t"
  shows "vx (texture2D t uv) = a"
  by (cases "tex_filter t")
     (simp_all add: texture2D_def Let_def v4_mix_def uniform_x_texel [OF assms] algebra_simps)

lemma pressure_pass_uniform:
  assumes p: "wf_texture p" "uniform_x a p"
    and dv: "wf_texture dv" "uniform_x c dv"
    and q: "tex_width q = tex_width dv" "tex_height q = tex_height dv"
  shows "uniform_x ((4 * a - c) / 4) (pass q ts (pressureShader p dv))"
proof -
  have "vx (texels (pass q ts (pressureShader p dv)) ! k) = (4 * a - c) / 4"
    if k: "k < tex_width dv * tex_height dv" for k
  proof -
    from k dv(1) have "k < length (texels dv)" by (simp add: wf_texture_def)
    with dv(2) have "vx (texels dv ! k) = c" by (simp add: uniform_x_def list_all_length)
    then have "vx (texture2D dv (vUv (baseVertexShader ts (fragPosition (tex_width dv) (tex_height dv) k)))) = c"
      by (simp add: texture2D_vUv [OF dv(1) k])
    with k show ?thesis
      by (simp add: pass_def q nth_drawQuad pressureShader_def Let_def texture2D_uniform_x [OF p])
  qed
  then show ?thesis
    by (simp add: uniform_x_def list_all_length q)
qed

lemma jacobi_Suc:
  "fst ((jacobi ts dv ^^ Suc n) pq) =
     pass (snd ((jacobi ts dv ^^ n) pq)) ts (pressureShader (fst ((jacobi ts dv ^^ n) pq)) dv)"
  "snd ((jacobi ts dv ^^ Suc n) pq) = fst ((jacobi ts dv ^^ n) pq)"
  by (simp_all add: jacobi_def [of ts dv "(jacobi ts dv ^^ n) pq"])

lemma jacobi_uniform:
  assumes p: "wf_texture p" "uniform_x a p"
    and dv: "wf_texture dv" "uniform_x c dv"
    and sp: "tex_width p = tex_width dv" "tex_height p = tex_height dv"
    and sq: "tex_width q = tex_width dv" "tex_height q = tex_height dv"
  shows "\<exists>b. wf_texture (fst ((jacobi ts dv ^^ n) (p, q))) \<and>
             uniform_x b (fst ((jacobi ts dv ^^ n) (p, q))) \<and>
             tex_width (fst ((jacobi ts dv ^^ n) (p, q))) = tex_width dv \<and>
             tex_height (fst ((jacobi ts dv ^^ n) (p, q))) = tex_height dv \<and>
             tex_width (snd ((jacobi ts dv ^^ n) (p, q))) = tex_width dv \<and>
             tex_height (snd ((jacobi ts dv ^^ n) (p, q))) = tex_height dv"
proof (induction n)
  case 0
  from p sp sq show ?case by auto
next
  case (Suc n)
  let ?pq = "(jacobi ts dv ^^ n) (p, q)"
  from Suc obtain b where w: "wf_texture (fst ?pq)" and u: "uniform_x b (fst ?pq)"
    and s1: "tex_width (fst ?pq) = tex_width dv" "tex_height (fst ?pq) = tex_height dv"
    and s2: "tex_width (snd ?pq) = tex_width dv" "tex_height (snd ?pq) = tex_height dv"
    by blast
  from dv(1) have pos: "0 < tex_width dv" "0 < tex_height dv" by (simp_all add: wf_texture_def)
  have "uniform_x ((4 * b - c) / 4) (pass (snd ?pq) ts (pressureShader (fst ?pq) dv))"
    by (rule pressure_pass_uniform [OF w u dv s2])
  moreover have "wf_texture (pass (snd ?pq) ts (pressureShader (fst ?pq) dv))"
    using pos s2 by (intro wf_texture_pass) simp_all
  ultimately show ?case
    unfolding jacobi_Suc using s1 s2 by auto
qed

lemma gradient_pass_uniform:
  assumes p: "wf_texture p" "uniform_x a p"
    and v: "wf_texture v" and q: "tex_width q = tex_width v" "tex_height q = tex_height v"
    and k: "k < tex_width v * tex_height v"
  shows "texels (pass q ts (gradientSubtractShader p v)) ! k =
           Vec4 (vx (texels v ! k)) (vy (texels v ! k)) 0 1"
  using k
  by (simp add: pass_def q nth_drawQuad gradientSubtractShader_def Let_def
      texture2D_uniform_x [OF p] texture2D_vUv [OF v k] v4_xy_def v2_sub_def)

lemma texel_xy_cong:
  assumes sz: "tex_width v' = tex_width v" "tex_height v' = tex_height v"
    and pos: "0 < tex_width v" "0 < tex_height v"
    and xy: "\<And>k. k < tex_width v * tex_height v \<Longrightarrow>
               vx (texels v' ! k) = vx (texels v ! k) \<and> vy (texels v' ! k) = vy (texels v ! k)"
  shows "vx (texel v' i j) = vx (texel v i j)" "vy (texel v' i j) = vy (texel v i j)"
proof -
  have "clamp_index j (tex_height v) * tex_width v + clamp_index i (tex_width v)
          < tex_width v * tex_height v"
    using pos by (intro cell_index_less clamp_index_less)
  from xy [OF this] show "vx (texel v' i j) = vx (texel v i j)" "vy (texel v' i j) = vy (texel v i j)"
    by (simp_all add: texel_def sz)
qed

lemma divergence_xy_cong:
  assumes sz: "tex_width v' = tex_width v" "tex_height v' = tex_height v"
    and pos: "0 < tex_width v" "0 < tex_height v"
    and xy: "\<And>k. k < tex_width v * tex_height v \<Longrightarrow>
               vx (texels v' ! k) = vx (texels v ! k) \<and> vy (texels v' ! k) = vy (texels v ! k)"
  shows "divergenceShader v' (baseVertexShader (Vec2 (1 / real (tex_width v)) (1 / real (tex_height v)))
            (fragPosition (tex_width v) (tex_height v) k)) =
         divergenceShader v (baseVertexShader (Vec2 (1 / real (tex_width v)) (1 / real (tex_height v)))
            (fragPosition (tex_width v) (tex_height v) k))"
proof -
  have c: "texture2D v (centre (tex_width v) (tex_height v) i j) = texel v i j"
    "texture2D v' (centre (tex_width v) (tex_height v) i j) = texel v' i j" for i j
    using texture2D_centre [of v i j] texture2D_centre [of v' i j] pos sz by simp_all
  show ?thesis
    unfolding varyings_frag [OF pos] divergenceShader_def Let_def
    by (simp add: c texel_xy_cong [OF sz pos xy])
qed

lemma sim_textures:
  assumes wf: "wf_sim st"
  defines "w \<equiv> fbo_width (fbo1 (velocity st))" and "h \<equiv> fbo_height (fbo1 (velocity st))"
  shows "0 < w" "0 < h" "simTexelSize st = Vec2 (1 / real w) (1 / real h)"
    "wf_texture (velocity_read (fields_of st))"
    "tex_width (velocity_read (fields_of st)) = w" "tex_height (velocity_read (fields_of st)) = h"
    "wf_texture (velocity_write (fields_of st))"
    "tex_width (velocity_write (fields_of st)) = w" "tex_height (velocity_write (fields_of st)) = h"
    "wf_texture (pressure_read (fields_of st))"
    "tex_width (pressure_read (fields_of st)) = w" "tex_height (pressure_read (fields_of st)) = h"
    "wf_texture (pressure_write (fields_of st))"
    "tex_width (pressure_write (fields_of st)) = w" "tex_height (pressure_write (fields_of st)) = h"
    "wf_texture (divergence_field (fields_of st))"
    "tex_width (divergence_field (fields_of st)) = w" "tex_height (divergence_field (fields_of st)) = h"
proof -
  note d = wf_simD [OF wf]
  note sz = fbos_sizedD [OF d(3)]
  show "0 < w" "0 < h" using wf_fboD(3,4) [OF d(4)] by (simp_all add: w_def h_def)
  show "simTexelSize st = Vec2 (1 / real w) (1 / real h)"
    unfolding w_def h_def by (rule simTexelSize_sized [OF sz(1)])
  show "wf_texture (velocity_read (fields_of st))"
    "tex_width (velocity_read (fields_of st)) = w" "tex_height (velocity_read (fields_of st)) = h"
    using wf_fboD(1,2,5) [OF d(4)] by (simp_all add: fields_of_def read_fbo_def w_def h_def)
  show "wf_texture (velocity_write (fields_of st))"
    "tex_width (velocity_write (fields_of st)) = w" "tex_height (velocity_write (fields_of st)) = h"
    using wf_fboD(1,2,5) [OF d(5)] sim_sized_same [OF sz(1) sz(2)]
    by (simp_all add: fields_of_def write_fbo_def w_def h_def)
  show "wf_texture (pressure_read (fields_of st))"
    "tex_width (pressure_read (fields_of st)) = w" "tex_height (pressure_read (fields_of st)) = h"
    using wf_fboD(1,2,5) [OF d(8)] sim_sized_same [OF sz(1) sz(3)]
    by (simp_all add: fields_of_def read_fbo_def w_def h_def)
  show "wf_texture (pressure_write (fields_of st))"
    "tex_width (pressure_write (fields_of st)) = w" "tex_height (pressure_write (fields_of st)) = h"
    using wf_fboD(1,2,5) [OF d(9)] sim_sized_same [OF sz(1) sz(4)]
    by (simp_all add: fields_of_def write_fbo_def w_def h_def)
  show "wf_texture (divergence_field (fields_of st))"
    "tex_width (divergence_field (fields_of st)) = w" "tex_height (divergence_field (fields_of st)) = h"
    using wf_fboD(1,2,5) [OF d(10)] sim_sized_same [OF sz(1) sz(5)]
    by (simp_all add: fields_of_def w_def h_def)
qed

lemma fields_project:
  assumes wf: "wf_sim st" and blend: "\<not> gl_blend (gl st)"
  shows "fields_of (project st) =
    (let F = fields_of st; ts = simTexelSize st;
         dv = pass (divergence_field F) ts (divergenceShader (velocity_read F));
         pq = (jacobi ts dv ^^ nat \<lceil>PRESSURE_ITERATIONS (config st)\<rceil>)
                (pressure_read F, pressure_write F)
     in F\<lparr> velocity_read := pass (velocity_write F) ts
                               (gradientSubtractShader (fst pq) (velocity_read F)),
            velocity_write := velocity_read F,
            pressure_read := fst pq, pressure_write := snd pq, divergence_field := dv \<rparr>)"
    and "simTexelSize (project st) = simTexelSize st"
    and "wf_sim (project st)"
proof -
  define s1 where "s1 = step_divergence st"
  define s2 where "s2 = (pressure_iteration ^^ nat \<lceil>PRESSURE_ITERATIONS (config st)\<rceil>) s1"
  have w1: "wf_sim s1" and b1: "\<not> gl_blend (gl s1)"
    and t1: "simTexelSize s1 = simTexelSize st" and c1: "config s1 = config st"
    using wf blend by (simp_all add: s1_def wf_sim_blocks)
  have w2: "wf_sim s2" and b2: "\<not> gl_blend (gl s2)" and t2: "simTexelSize s2 = simTexelSize st"
    using w1 b1 t1 by (simp_all add: s2_def pressure_iterations_inv)
  have p: "project st = step_gradient_subtract s2"
    by (simp add: project_def pressure_loop_funpow s2_def s1_def)
  let ?F = "fields_of st" and ?ts = "simTexelSize st"
  let ?dv = "pass (divergence_field ?F) ?ts (divergenceShader (velocity_read ?F))"
  let ?pq = "(jacobi ?ts ?dv ^^ nat \<lceil>PRESSURE_ITERATIONS (config st)\<rceil>)
                (pressure_read ?F, pressure_write ?F)"
  have f1: "fields_of s1 = ?F\<lparr> divergence_field := ?dv \<rparr>"
    unfolding s1_def fields_step_divergence [OF wf blend] ..
  have f2: "fields_of s2 = ?F\<lparr> pressure_read := fst ?pq, pressure_write := snd ?pq,
                                 divergence_field := ?dv \<rparr>"
    unfolding s2_def fields_pressure_iterations [OF w1 b1] t1 f1 by simp
  show "fields_of (project st) =
    (let F = fields_of st; ts = simTexelSize st;
         dv = pass (divergence_field F) ts (divergenceShader (velocity_read F));
         pq = (jacobi ts dv ^^ nat \<lceil>PRESSURE_ITERATIONS (config st)\<rceil>)
                (pressure_read F, pressure_write F)
     in F\<lparr> velocity_read := pass (velocity_write F) ts
                               (gradientSubtractShader (fst pq) (velocity_read F)),
            velocity_write := velocity_read F,
            pressure_read := fst pq, pressure_write := snd pq, divergence_field := dv \<rparr>)"
    unfolding p fields_step_gradient_subtract [OF w2 b2] t2 f2 Let_def by simp
  show "simTexelSize (project st) = simTexelSize st"
    unfolding p using t2 by simp
  show "wf_sim (project st)"
    unfolding p using w2 by (simp add: wf_sim_blocks)
qed

lemma step_project:
  "step dt st =
     project (step_advect_density dt (step_advect_velocity dt (step_vorticity dt
       (step_curl (st\<lparr> gl := (gl st)\<lparr> gl_blend := False \<rparr> \<rparr>)))))"
  by (simp add: step_def project_def Let_def)

lemma project_uniform:
  assumes wf: "wf_sim st" and blend: "\<not> gl_blend (gl st)"
    and udiv: "list_all (\<lambda>x. x = c) (divergence_of st)"
    and up: "uniform_x a (pressure_read (fields_of st))"
  shows "map v4_xy (texels (velocity_read (fields_of (project st)))) =
           map v4_xy (texels (velocity_read (fields_of st)))"
    and "divergence_of (project st) = divergence_of st"
proof -
  let ?F = "fields_of st" and ?ts = "simTexelSize st"
  let ?V = "velocity_read ?F"
  define w where "w = fbo_width (fbo1 (velocity st))"
  define h where "h = fbo_height (fbo1 (velocity st))"
  note t = sim_textures [OF wf, folded w_def h_def]
  let ?dv = "pass (divergence_field ?F) ?ts (divergenceShader ?V)"
  let ?pq = "(jacobi ?ts ?dv ^^ nat \<lceil>PRESSURE_ITERATIONS (config st)\<rceil>)
                (pressure_read ?F, pressure_write ?F)"
  let ?V' = "pass (velocity_write ?F) ?ts (gradientSubtractShader (fst ?pq) ?V)"
  have V': "velocity_read (fields_of (project st)) = ?V'"
    by (simp add: fields_project(1) [OF wf blend] Let_def)
  have dv_wf: "wf_texture ?dv" and dv_sz: "tex_width ?dv = w" "tex_height ?dv = h"
    using t by (simp_all add: wf_texture_pass)
  have dv_u: "uniform_x c ?dv"
    using udiv by (simp add: uniform_x_def divergence_of_def list_all_length pass_def t)
  obtain b where p_wf: "wf_texture (fst ?pq)" and p_u: "uniform_x b (fst ?pq)"
    using jacobi_uniform [OF t(10) up dv_wf dv_u, where q = "pressure_write ?F" and ts = ?ts
        and n = "nat \<lceil>PRESSURE_ITERATIONS (config st)\<rceil>"] t dv_sz
    by auto
  have cell: "texels ?V' ! k = Vec4 (vx (texels ?V ! k)) (vy (texels ?V ! k)) 0 1"
    if "k < w * h" for k
    using gradient_pass_uniform [OF p_wf p_u t(4), where q = "velocity_write ?F" and k = k
        and ts = ?ts] that by (simp add: t(5,6,8,9))
  have len: "length (texels ?V) = w * h"
    using t(4,5,6) by (simp add: wf_texture_def)
  show "map v4_xy (texels (velocity_read (fields_of (project st)))) = map v4_xy (texels ?V)"
    unfolding V'
  proof (rule nth_equalityI)
    show "length (map v4_xy (texels ?V')) = length (map v4_xy (texels ?V))"
      by (simp add: len t(8,9))
  next
    fix k assume "k < length (map v4_xy (texels ?V'))"
    then have k: "k < w * h" by (simp add: t(8,9))
    then show "map v4_xy (texels ?V') ! k = map v4_xy (texels ?V) ! k"
      by (simp add: len t(8,9) cell [OF k] v4_xy_def)
  qed
  have xy: "vx (texels ?V' ! k) = vx (texels ?V ! k) \<and> vy (texels ?V' ! k) = vy (texels ?V ! k)"
    if "k < tex_width ?V * tex_height ?V" for k
    using that cell [of k] by (simp add: t(5,6))
  have sz: "tex_width ?V' = tex_width ?V" "tex_height ?V' = tex_height ?V"
    by (simp_all add: t(5,6,8,9))
  have pos: "0 < tex_width ?V" "0 < tex_height ?V"
    by (simp_all add: t(1,2,5,6))
  have "drawQuad w h (Vec2 (1 / real w) (1 / real h)) (divergenceShader ?V') =
        drawQuad w h (Vec2 (1 / real w) (1 / real h)) (divergenceShader ?V)"
    unfolding drawQuad_def
    using divergence_xy_cong [OF sz pos xy] t(5,6) by simp
  then show "divergence_of (project st) = divergence_of st"
    unfolding divergence_of_def fields_project(2) [OF wf blend] V'
    by (simp add: pass_def t)
qed

lemma list2_eq: "length xs = 2 \<Longrightarrow> xs = [xs ! 0, xs ! 1]"
  by (cases xs; cases "tl xs") auto

lemma small_velocity_cell1:
  "texels (pass (velocity_write (fields_of small_sim)) (Vec2 0 0)
     (splatShader (velocity_read (fields_of small_sim)) 2 (Vec3 1 0 0) (Vec2 0 (1/2)) rad)) ! 1
   = Vec4 (exp (- (9/4) / rad)) 0 0 1"
proof -
  have t: "wf_texture (blank 2 1 LINEAR)" by (simp add: wf_texture_def blank_def)
  have "texels (pass (blank 2 1 LINEAR) (Vec2 0 0)
           (splatShader (blank 2 1 LINEAR) 2 (Vec3 1 0 0) (Vec2 0 (1/2)) rad)) ! 1
        = Vec4 (exp (- (9/4) / rad)) 0 0 1"
    using splat_cell [OF t, of "blank 2 1 LINEAR" 1 "Vec2 0 0" 2 "Vec3 1 0 0" "Vec2 0 (1/2)" rad]
    by (simp add: blank_2_1 Let_def centre_def v2_sub_def)
  then show ?thesis by (simp add: small_sim_fields)
qed

lemma pushed_velocity:
  "velocity_read (fields_of pushed_sim) =
     (blank 2 1 LINEAR)\<lparr> texels := [Vec4 (exp (- (1/4))) 0 0 1, Vec4 (exp (- (9/4))) 0 0 1] \<rparr>"
proof -
  let ?V = "pass (velocity_write (fields_of small_sim)) (Vec2 0 0)
     (splatShader (velocity_read (fields_of small_sim)) 2 (Vec3 1 0 0) (Vec2 0 (1/2)) 1)"
  have v: "velocity_read (fields_of pushed_sim) = ?V"
    by (simp add: pushed_sim_def fields_splat(1) [OF small_sim_wf] Let_def small_sim_radius)
  have "length (texels ?V) = 2" by (simp add: small_sim_fields blank_2_1)
  then have "texels ?V = [texels ?V ! 0, texels ?V ! 1]" by (rule list2_eq)
  then have "texels ?V = [Vec4 (exp (- (1/4))) 0 0 1, Vec4 (exp (- (9/4))) 0 0 1]"
    using small_velocity_cell0 [of 1] small_velocity_cell1 [of 1] by simp
  moreover have "?V = (blank 2 1 LINEAR)\<lparr> texels := texels ?V \<rparr>"
    by (simp add: pass_def small_sim_fields)
  ultimately show ?thesis unfolding v by simp
qed

lemma pushed_sim_facts:
  "wf_sim pushed_sim" "\<not> gl_blend (gl pushed_sim)"
  "PRESSURE_ITERATIONS (config pushed_sim) = 20"
  "simTexelSize pushed_sim = Vec2 (1/2) 1"
  "pressure_read (fields_of pushed_sim) = blank 2 1 NEAREST"
proof -
  show "wf_sim pushed_sim" unfolding pushed_sim_def by (rule fields_splat(2) [OF small_sim_wf])
  show "\<not> gl_blend (gl pushed_sim)" by (simp add: pushed_sim_def)
  show "PRESSURE_ITERATIONS (config pushed_sim) = 20"
    by (simp add: pushed_sim_def small_sim_config default_config_def)
  show "simTexelSize pushed_sim = Vec2 (1/2) 1"
    using small_sim_fields(11) by (simp add: pushed_sim_def simTexelSize_def)
  show "pressure_read (fields_of pushed_sim) = blank 2 1 NEAREST"
    by (simp add: pushed_sim_def fields_splat(1) [OF small_sim_wf] Let_def small_sim_fields)
qed

lemma pushed_divergence:
  "divergence_of pushed_sim =
     [(exp (- (9/4)) - exp (- (1/4))) / 2, (exp (- (9/4)) - exp (- (1/4))) / 2]"
proof -
  let ?V = "(blank 2 1 LINEAR)\<lparr> texels := [Vec4 (exp (- (1/4))) 0 0 1, Vec4 (exp (- (9/4))) 0 0 1] \<rparr>"
  have sz: "tex_width ?V = 2" "tex_height ?V = 1" by (simp_all add: blank_2_1)
  have c: "texture2D ?V (centre 2 (Suc 0) i j) = texel ?V i j" for i j
    using texture2D_centre [of ?V i j] by (simp add: sz)
  have v: "baseVertexShader (Vec2 (1/2) 1) (fragPosition 2 (Suc 0) k) =
     \<lparr> vUv = centre 2 (Suc 0) (int (k mod 2)) (int (k div 2)),
       vL = centre 2 (Suc 0) (int (k mod 2) - 1) (int (k div 2)),
       vR = centre 2 (Suc 0) (int (k mod 2) + 1) (int (k div 2)),
       vT = centre 2 (Suc 0) (int (k mod 2)) (int (k div 2) + 1),
       vB = centre 2 (Suc 0) (int (k mod 2)) (int (k div 2) - 1) \<rparr>" for k
    using varyings_frag [of 2 "Suc 0" k] by simp
  have d0: "divergenceShader ?V (baseVertexShader (Vec2 (1/2) 1) (fragPosition 2 (Suc 0) 0)) =
              Vec4 ((exp (- (9/4)) - exp (- (1/4))) / 2) 0 0 1"
    unfolding v divergenceShader_def Let_def
    by (simp add: c texel_def clamp_index_def sz)
  have d1: "divergenceShader ?V (baseVertexShader (Vec2 (1/2) 1) (fragPosition 2 (Suc 0) (Suc 0))) =
              Vec4 ((exp (- (9/4)) - exp (- (1/4))) / 2) 0 0 1"
    unfolding v divergenceShader_def Let_def
    by (simp add: c texel_def clamp_index_def sz)
  have "length (divergence_of pushed_sim) = 2"
    by (simp add: divergence_of_def pushed_velocity sz)
  then have "divergence_of pushed_sim = [divergence_of pushed_sim ! 0, divergence_of pushed_sim ! 1]"
    by (rule list2_eq)
  also have "divergence_of pushed_sim ! 0 = (exp (- (9/4)) - exp (- (1/4))) / 2"
    unfolding divergence_of_def pushed_velocity pushed_sim_facts(4)
    by (simp add: pass_def sz nth_drawQuad d0)
  also have "divergence_of pushed_sim ! 1 = (exp (- (9/4)) - exp (- (1/4))) / 2"
    unfolding divergence_of_def pushed_velocity pushed_sim_facts(4)
    by (simp add: pass_def sz nth_drawQuad d1)
  finally show ?thesis .
qed

lemma uniform_x_blank: "uniform_x 0 (blank w h p)"
  by (simp add: uniform_x_def blank_def list_all_length)


section \<open>Double buffers\<close>

lemma swap_pow: "(swap ^^ n) d = (if even n then d else swap d)"
  by (induction n) (auto simp: swap_def Let_def)

lemma block_buffers [simp]:
  "velocity (step_curl st) = velocity st" "density (step_curl st) = density st"
  "pressure (step_curl st) = pressure st"
  "velocity (step_vorticity dt st) = swap (velocity st)" "density (step_vorticity dt st) = density st"
  "pressure (step_vorticity dt st) = pressure st"
  "velocity (step_advect_velocity dt st) = swap (velocity st)"
  "density (step_advect_velocity dt st) = density st"
  "pressure (step_advect_velocity dt st) = pressure st"
  "velocity (step_advect_density dt st) = velocity st"
  "density (step_advect_density dt st) = swap (density st)"
  "pressure (step_advect_density dt st) = pressure st"
  "velocity (step_divergence st) = velocity st" "density (step_divergence st) = density st"
  "pressure (step_divergence st) = pressure st"
  "velocity (pressure_iteration st) = velocity st" "density (pressure_iteration st) = density st"
  "velocity (step_gradient_subtract st) = swap (velocity st)"
  "density (step_gradient_subtract st) = density st"
  "pressure (step_gradient_subtract st) = pressure st"
  by (simp_all add: step_curl_def step_vorticity_def step_advect_velocity_def
      step_advect_density_def step_divergence_def pressure_iteration_def
      step_gradient_subtract_def Let_def)

lemma pressure_iterations_buffers [simp]:
  "velocity ((pressure_iteration ^^ n) st) = velocity st"
  "density ((pressure_iteration ^^ n) st) = density st"
  by (induction n) simp_all

lemma step_buffers:
  "velocity (step dt st) = (swap ^^ 3) (velocity st)"
  "density (step dt st) = swap (density st)"
  "pressure (step dt st) = (swap ^^ nat \<lceil>PRESSURE_ITERATIONS (config st)\<rceil>) (pressure st)"
  by (simp_all add: step_def Let_def pressure_loop_funpow pressure_iterations_pressure
      eval_nat_numeral)

lemma splat_buffers:
  "velocity (splat x y dx dy c st) = swap (velocity st)"
  "density (splat x y dx dy c st) = swap (density st)"
  "pressure (splat x y dx dy c st) = pressure st"
  by (simp_all add: splat_def Let_def)

lemma resizeCanvas_distinct: "fbos_distinct (resizeCanvas cw ch st)"
  by (simp add: resizeCanvas_eq Let_def fbos_distinct_def)

text \<open>
  Claim C9.  The read side and the write side of a double buffer are framebuffer objects
  on different textures when \<open>createDoubleFBO\<close> returns it and after any number of
  calls of \<open>swap\<close>; \<open>swap\<close> exchanges the two references: what was the write side is the
  read side afterwards and conversely.  \<open>swap\<close> has no access to the texture store, so it
  copies nothing.  The velocity, the dye and the pressure that \<open>resizeCanvas\<close> allocates
  have their two sides on different textures, and \<open>splat\<close> and \<open>step\<close> change these
  three double buffers by calls of \<open>swap\<close> only.
\<close>

theorem double_buffer_non_aliasing:
  "(let d = fst (createDoubleFBO w h p gs) in
     fbo_texture (read_fbo d) \<noteq> fbo_texture (write_fbo d) \<and>
     (\<forall>n. fbo_texture (read_fbo ((swap ^^ n) d)) \<noteq> fbo_texture (write_fbo ((swap ^^ n) d))) \<and>
     (\<forall>n. read_fbo ((swap ^^ Suc n) d) = write_fbo ((swap ^^ n) d) \<and>
          write_fbo ((swap ^^ Suc n) d) = read_fbo ((swap ^^ n) d))) \<and>
   (let r = resizeCanvas cw ch st in
     fbo_texture (read_fbo (velocity r)) \<noteq> fbo_texture (write_fbo (velocity r)) \<and>
     fbo_texture (read_fbo (density r)) \<noteq> fbo_texture (write_fbo (density r)) \<and>
     fbo_texture (read_fbo (pressure r)) \<noteq> fbo_texture (write_fbo (pressure r))) \<and>
   velocity (splat x y dx dy c st) = swap (velocity st) \<and>
   density (splat x y dx dy c st) = swap (density st) \<and>
   pressure (splat x y dx dy c st) = pressure st \<and>
   velocity (step dt st) = (swap ^^ 3) (velocity st) \<and>
   density (step dt st) = swap (density st) \<and>
   pressure (step dt st) = (swap ^^ nat \<lceil>PRESSURE_ITERATIONS (config st)\<rceil>) (pressure st)"
proof -
  have a: "(let d = fst (createDoubleFBO w h p gs) in
     fbo_texture (read_fbo d) \<noteq> fbo_texture (write_fbo d) \<and>
     (\<forall>n. fbo_texture (read_fbo ((swap ^^ n) d)) \<noteq> fbo_texture (write_fbo ((swap ^^ n) d))) \<and>
     (\<forall>n. read_fbo ((swap ^^ Suc n) d) = write_fbo ((swap ^^ n) d) \<and>
          write_fbo ((swap ^^ Suc n) d) = read_fbo ((swap ^^ n) d)))"
    by (simp add: createDoubleFBO_def createFBO_def Let_def swap_pow read_fbo_def write_fbo_def
        swap_def split: prod.splits)
  have b: "(let r = resizeCanvas cw ch st in
     fbo_texture (read_fbo (velocity r)) \<noteq> fbo_texture (write_fbo (velocity r)) \<and>
     fbo_texture (read_fbo (density r)) \<noteq> fbo_texture (write_fbo (density r)) \<and>
     fbo_texture (read_fbo (pressure r)) \<noteq> fbo_texture (write_fbo (pressure r)))"
    using fbos_distinctD(1,14,23) [OF resizeCanvas_distinct [of cw ch st]]
    by (simp add: Let_def read_fbo_def write_fbo_def)
  from a b show ?thesis
    by (simp only: step_buffers splat_buffers simp_thms)
qed


section \<open>Grid resolution\<close>

lemma js_round_mono: "x \<le> y \<Longrightarrow> js_round x \<le> js_round y"
  by (simp add: js_round_def floor_mono)

lemma getResolution_sides:
  assumes a: "0 < a" and res: "0 \<le> res" "to_double res = res"
  shows "a < 1 \<Longrightarrow> js_round res \<le> js_round (to_double (res / a))"
    and "\<not> a < 1 \<Longrightarrow> js_round res \<le> js_round (to_double (res * a))"
    and "a < 1 \<Longrightarrow> js_round res \<le> js_round (to_double (res * to_double (1 / a)))"
proof -
  { assume lt: "a < 1"
    with a have inv: "1 \<le> 1 / a" by simp
    with res(1) have "res * 1 \<le> res * (1 / a)"
      by (intro mult_left_mono) simp_all
    then have "res \<le> res / a" by simp
    from to_double_mono [OF res(1) this] have "res \<le> to_double (res / a)"
      by (simp only: res(2))
    then show "js_round res \<le> js_round (to_double (res / a))"
      by (rule js_round_mono)
    from to_double_mono [OF _ inv] have "1 \<le> to_double (1 / a)"
      by (simp add: to_double_1)
    with res(1) have "res * 1 \<le> res * to_double (1 / a)"
      by (intro mult_left_mono) simp_all
    then have "res \<le> res * to_double (1 / a)" by simp
    from to_double_mono [OF res(1) this] have "res \<le> to_double (res * to_double (1 / a))"
      by (simp only: res(2))
    then show "js_round res \<le> js_round (to_double (res * to_double (1 / a)))"
      by (rule js_round_mono) }
  { assume "\<not> a < 1"
    then have "1 \<le> a" by simp
    with res(1) have "res * 1 \<le> res * a"
      by (intro mult_left_mono) simp_all
    then have "res \<le> res * a" by simp
    from to_double_mono [OF res(1) this] have "res \<le> to_double (res * a)"
      by (simp only: res(2))
    then show "js_round res \<le> js_round (to_double (res * a))"
      by (rule js_round_mono) }
qed

lemma aspect_positive:
  assumes "0 < w" "0 < h" "h < 2 ^ 32"
  shows "0 < to_double (real w / real h)"
proof -
  from assms have "real h \<le> 2 ^ 32"
    by (metis less_imp_le of_nat_le_iff of_nat_numeral of_nat_power)
  with assms have "1 / 2 ^ 32 \<le> real w / real h"
    by (intro frac_le) simp_all
  moreover have "(2::real) powr (- 1022) \<le> 1 / 2 ^ 32"
    by (simp add: powr_neg_numeral)
  ultimately have "2 powr (- 1022) \<le> real w / real h" by linarith
  then show ?thesis by (rule to_double_positive)
qed

text \<open>
  Claim C8, as the code has it.  The arithmetic is that of doubles.  On a canvas whose
  sides are positive and below \<open>2 ^ 32\<close>, and for a target resolution that is a double, not
  negative and below \<open>2 ^ 53\<close>, the smaller dimension of the derived grid is the rounded
  target resolution.  The larger dimension is the rounded double of the target divided by
  the aspect ratio, where the aspect ratio (the double of width over height) is below one,
  and of the target times the aspect ratio otherwise.  The variant of the WebGL utilities
  has the same smaller dimension; where the aspect ratio is below one its larger dimension
  is the rounded double of the target times the double of the reciprocal of the aspect
  ratio, which can differ by one from that of the simulation.
\<close>

theorem getResolution_smaller_side_is_target:
  assumes "0 < canvas_width st" "0 < canvas_height st"
    and "canvas_width st < 2 ^ 32" "canvas_height st < 2 ^ 32"
    and "0 \<le> res" "res < 2 ^ 53" "to_double res = res"
  shows "(let a = to_double (real (canvas_width st) / real (canvas_height st));
              rs = getResolution st res;
              ru = getResolution_utils (canvas_width st) (canvas_height st) res
          in min (width rs) (height rs) = js_round res \<and>
             max (width rs) (height rs) = js_round (to_double (if a < 1 then res / a else res * a)) \<and>
             min (width ru) (height ru) = js_round res \<and>
             max (width ru) (height ru) =
               js_round (to_double (res * (if a < 1 then to_double (1 / a) else a))))"
proof -
  define a where "a = to_double (real (canvas_width st) / real (canvas_height st))"
  have a: "0 < a"
    unfolding a_def using assms(1,2,4) by (rule aspect_positive)
  note sides = getResolution_sides [OF a assms(5,7)]
  have rs: "getResolution st res =
      (if a < 1 then \<lparr> width = js_round res, height = js_round (to_double (res / a)) \<rparr>
       else \<lparr> width = js_round (to_double (res * a)), height = js_round res \<rparr>)"
    by (simp add: getResolution_def Let_def a_def)
  have ru: "getResolution_utils (canvas_width st) (canvas_height st) res =
      (if canvas_height st < canvas_width st
       then \<lparr> width = js_round (to_double (res * (if a < 1 then to_double (1 / a) else a))),
              height = js_round res \<rparr>
       else \<lparr> width = js_round res,
              height = js_round (to_double (res * (if a < 1 then to_double (1 / a) else a))) \<rparr>)"
    by (simp add: getResolution_utils_def Let_def a_def)
  have s1: "min (width (getResolution st res)) (height (getResolution st res)) = js_round res \<and>
        max (width (getResolution st res)) (height (getResolution st res))
          = js_round (to_double (if a < 1 then res / a else res * a))"
    using sides(1,2) by (cases "a < 1") (simp_all add: rs)
  have s2: "min (width (getResolution_utils (canvas_width st) (canvas_height st) res))
            (height (getResolution_utils (canvas_width st) (canvas_height st) res)) = js_round res \<and>
        max (width (getResolution_utils (canvas_width st) (canvas_height st) res))
            (height (getResolution_utils (canvas_width st) (canvas_height st) res))
          = js_round (to_double (res * (if a < 1 then to_double (1 / a) else a)))"
    using sides(2,3) by (cases "a < 1"; cases "canvas_height st < canvas_width st") (simp_all add: ru)
  from s1 s2 show ?thesis
    unfolding Let_def a_def [symmetric] by simp
qed

theorem getResolution_smaller_side_is_target_witness:
  "0 < canvas_width (createFluidSimulation 2 75 True True) \<and>
   0 < canvas_height (createFluidSimulation 2 75 True True) \<and>
   canvas_width (createFluidSimulation 2 75 True True) < 2 ^ 32 \<and>
   canvas_height (createFluidSimulation 2 75 True True) < 2 ^ 32 \<and>
   (0::real) \<le> 3 \<and> (3::real) < 2 ^ 53 \<and> to_double 3 = 3 \<and>
   min (width (getResolution (createFluidSimulation 2 75 True True) 3))
       (height (getResolution (createFluidSimulation 2 75 True True) 3)) = 3 \<and>
   max (width (getResolution (createFluidSimulation 2 75 True True) 3))
       (height (getResolution (createFluidSimulation 2 75 True True) 3)) = 112 \<and>
   min (width (getResolution_utils 2 75 3)) (height (getResolution_utils 2 75 3)) = 3 \<and>
   max (width (getResolution_utils 2 75 3)) (height (getResolution_utils 2 75 3)) = 113 \<and>
   0 < canvas_width (createFluidSimulation 256 391 True True) \<and>
   0 < canvas_height (createFluidSimulation 256 391 True True) \<and>
   canvas_width (createFluidSimulation 256 391 True True) < 2 ^ 32 \<and>
   canvas_height (createFluidSimulation 256 391 True True) < 2 ^ 32 \<and>
   (0::real) \<le> 128 \<and> (128::real) < 2 ^ 53 \<and> to_double 128 = 128 \<and>
   min (width (getResolution (createFluidSimulation 256 391 True True) 128))
       (height (getResolution (createFluidSimulation 256 391 True True) 128)) = 128 \<and>
   max (width (getResolution (createFluidSimulation 256 391 True True) 128))
       (height (getResolution (createFluidSimulation 256 391 True True) 128)) = 195 \<and>
   min (width (getResolution_utils 256 391 128)) (height (getResolution_utils 256 391 128)) = 128 \<and>
   max (width (getResolution_utils 256 391 128)) (height (getResolution_utils 256 391 128)) = 195"
proof -
  let ?S = "createFluidSimulation 2 75 True True"
  let ?T = "createFluidSimulation 256 391 True True"
  have cs: "canvas_width ?S = 2" "canvas_height ?S = 75" by simp_all
  have ct: "canvas_width ?T = 256" "canvas_height ?T = 391" by simp_all
  have rs: "real (2::nat) / real (75::nat) = 2 / 75" by simp
  have rt: "real (256::nat) / real (391::nat) = 256 / 391" by simp
  have ls: "(7686143364045647 / 2 ^ 58 :: real) < 1" by simp
  have lt: "(5897296698756251 / 2 ^ 53 :: real) < 1" by simp
  have js: "js_round 3 = 3" "js_round (7916483719987199 / 2 ^ 46) = 112" "js_round (225 / 2) = 113"
    by (simp_all add: js_round_def)
  have jt: "js_round 128 = 128" "js_round (6878544743366655 / 2 ^ 45) = 195"
    by (simp_all add: js_round_def)
  have hs: "0 < (2::nat)" "0 < (75::nat)" "(2::nat) < 2 ^ 32" "(75::nat) < 2 ^ 32"
    "(0::real) \<le> 3" "(3::real) < 2 ^ 53" by simp_all
  have ht: "0 < (256::nat)" "0 < (391::nat)" "(256::nat) < 2 ^ 32" "(391::nat) < 2 ^ 32"
    "(0::real) \<le> 128" "(128::real) < 2 ^ 53" by simp_all
  note s = getResolution_smaller_side_is_target [of ?S 3,
      unfolded Let_def cs rs to_double_2_75(1) if_P [OF ls] to_double_2_75(2-4) js,
      OF hs to_double_3]
  note t = getResolution_smaller_side_is_target [of ?T 128,
      unfolded Let_def ct rt to_double_256_391(1) if_P [OF lt] to_double_256_391(2-4) jt,
      OF ht to_double_128]
  from s t hs ht show ?thesis
    unfolding cs ct to_double_3 to_double_128 by simp
qed

text \<open>
  The claim as stated fails: on a canvas twice as wide as high and for the target 128 the
  grid is 256 by 128 (each operation is exact there), so its larger dimension is not the
  target.
\<close>

theorem getResolution_larger_side_counterexample:
  "\<not> max (width (getResolution (createFluidSimulation 2 1 True True) 128))
         (height (getResolution (createFluidSimulation 2 1 True True) 128)) = js_round 128"
  by (simp add: getResolution_def js_round_def to_double_2 to_double_256)


section \<open>Configuration\<close>




section \<open>What the step reads of the configuration\<close>

lemma step_curl_set_config:
  "step_curl (s\<lparr> config := c \<rparr>) = (step_curl s)\<lparr> config := c \<rparr>"
  by (simp add: step_curl_def sampler_def simTexelSize_def)

lemma step_vorticity_set_config:
  "CURL c = CURL (config s) \<Longrightarrow>
   step_vorticity dt (s\<lparr> config := c \<rparr>) = (step_vorticity dt s)\<lparr> config := c \<rparr>"
  by (simp add: step_vorticity_def Let_def sampler_def simTexelSize_def)

lemma step_advect_velocity_set_config:
  "VELOCITY_DISSIPATION c = VELOCITY_DISSIPATION (config s) \<Longrightarrow>
   step_advect_velocity dt (s\<lparr> config := c \<rparr>) = (step_advect_velocity dt s)\<lparr> config := c \<rparr>"
  by (simp add: step_advect_velocity_def Let_def sampler_def simTexelSize_def)

lemma step_advect_density_set_config:
  "DENSITY_DISSIPATION c = DENSITY_DISSIPATION (config s) \<Longrightarrow>
   step_advect_density dt (s\<lparr> config := c \<rparr>) = (step_advect_density dt s)\<lparr> config := c \<rparr>"
  by (simp add: step_advect_density_def Let_def sampler_def simTexelSize_def)

lemma step_divergence_set_config:
  "step_divergence (s\<lparr> config := c \<rparr>) = (step_divergence s)\<lparr> config := c \<rparr>"
  by (simp add: step_divergence_def sampler_def simTexelSize_def)

lemma pressure_loop_set_config:
  "PRESSURE_ITERATIONS c = PRESSURE_ITERATIONS (config s) \<Longrightarrow>
   pressure_loop i (s\<lparr> config := c \<rparr>) = (pressure_loop i s)\<lparr> config := c \<rparr>"
  by (simp add: pressure_loop_funpow pressure_iterations_set_config)

lemma step_gradient_subtract_set_config:
  "step_gradient_subtract (s\<lparr> config := c \<rparr>) = (step_gradient_subtract s)\<lparr> config := c \<rparr>"
  by (simp add: step_gradient_subtract_def Let_def sampler_def simTexelSize_def)

text \<open>
  Claim C10.  Two runs of \<open>step\<close> from states that differ only in the configuration
  fields \<open>PRESSURE\<close> and \<open>PAUSED\<close> end in states that differ only in these two fields:
  the step reads neither, so the textures and framebuffers it computes are the same.
\<close>

theorem step_ignores_PRESSURE_and_PAUSED:
  "step dt (st\<lparr> config := (config st)\<lparr> PRESSURE := p, PAUSED := q \<rparr> \<rparr>)
     = (step dt st)\<lparr> config := (config st)\<lparr> PRESSURE := p, PAUSED := q \<rparr> \<rparr>"
proof -
  let ?c = "(config st)\<lparr> PRESSURE := p, PAUSED := q \<rparr>"
  define s0 where "s0 = st\<lparr> gl := (gl st)\<lparr> gl_blend := False \<rparr> \<rparr>"
  have c0: "config s0 = config st"
    by (simp add: s0_def)
  have start: "(st\<lparr> config := ?c \<rparr>)\<lparr> gl := (gl (st\<lparr> config := ?c \<rparr>))\<lparr> gl_blend := False \<rparr> \<rparr>
                 = s0\<lparr> config := ?c \<rparr>"
    by (simp add: s0_def)
  have "step dt (st\<lparr> config := ?c \<rparr>) = (step dt st)\<lparr> config := ?c \<rparr>"
    unfolding step_def Let_def start
    unfolding s0_def [symmetric]
    by (simp add: c0 step_curl_set_config step_vorticity_set_config
        step_advect_velocity_set_config step_advect_density_set_config
        step_divergence_set_config pressure_loop_set_config
        step_gradient_subtract_set_config)
  then show ?thesis .
qed

section \<open>The pressure iterations\<close>

text \<open>
  Claim C3.  With \<open>PRESSURE_ITERATIONS\<close> set to the count \<open>n\<close>, the loop of \<open>step\<close> runs
  the Jacobi iteration exactly \<open>n\<close> times, whatever the values of the field: the read
  side of the pressure afterwards is the \<open>n\<close>-th iterate, the write side the iterate
  before it, and the double buffer has been swapped \<open>n\<close> times.  Every cell of iterate
  \<open>m + 1\<close> is a quarter of the sum of its left, right, bottom and top neighbours in
  iterate \<open>m\<close> (clamped at the edges) minus the divergence at the cell: it is computed
  from the whole previous iterate and from nothing of the iterate being written.
\<close>

theorem pressure_loop_jacobi:
  assumes wf: "wf_sim st" and blend: "\<not> gl_blend (gl st)"
    and n: "PRESSURE_ITERATIONS (config st) = real n"
  shows "(let F = fields_of st; st' = pressure_loop 0 st;
              J = jacobi (simTexelSize st) (divergence_field F);
              p = (\<lambda>m. fst ((J ^^ m) (pressure_read F, pressure_write F)))
          in pressure_read (fields_of st') = p n \<and>
             pressure_write (fields_of st') = (if n = 0 then pressure_write F else p (n - 1)) \<and>
             pressure st' = (swap ^^ n) (pressure st) \<and>
             (\<forall>m i j. m < n \<longrightarrow> i < fbo_width (read_fbo (pressure st)) \<longrightarrow>
                 j < fbo_height (read_fbo (pressure st)) \<longrightarrow>
                 texel (p (Suc m)) (int i) (int j) =
                   Vec4 ((vx (texel (p m) (int i - 1) (int j)) + vx (texel (p m) (int i + 1) (int j)) +
                          vx (texel (p m) (int i) (int j - 1)) + vx (texel (p m) (int i) (int j + 1)) -
                          vx (texel (divergence_field F) (int i) (int j))) * (1/4)) 0 0 1))"
proof -
  define F where "F = fields_of st"
  define w where "w = fbo_width (fbo1 (pressure st))"
  define h where "h = fbo_height (fbo1 (pressure st))"
  define J where "J = jacobi (simTexelSize st) (divergence_field F)"
  let ?pq = "\<lambda>m. (J ^^ m) (pressure_read F, pressure_write F)"
  have loop: "pressure_loop 0 st = (pressure_iteration ^^ n) st"
    by (simp add: pressure_loop_funpow n)
  note d = wf_simD [OF wf]
  note sz = fbos_sizedD [OF d(3)]
  have ts: "simTexelSize st = Vec2 (1 / real w) (1 / real h)"
    unfolding w_def h_def by (rule simTexelSize_sized) (rule sz)
  have pos: "0 < w" "0 < h"
    using wf_fboD [OF d(8)] by (simp_all add: w_def h_def)
  have P: "tex_width (pressure_read F) = w" "tex_height (pressure_read F) = h"
    using wf_fboD [OF d(8)] by (simp_all add: F_def fields_of_def read_fbo_def w_def h_def)
  have Q: "tex_width (pressure_write F) = w" "tex_height (pressure_write F) = h"
    using wf_fboD [OF d(9)] sim_sized_same [OF sz(3) sz(4)]
    by (simp_all add: F_def fields_of_def write_fbo_def w_def h_def)
  have D: "tex_width (divergence_field F) = w" "tex_height (divergence_field F) = h"
    using wf_fboD [OF d(10)] sim_sized_same [OF sz(3) sz(5)]
    by (simp_all add: F_def fields_of_def w_def h_def)
  have sizes: "tex_width (fst (?pq m)) = w \<and> tex_height (fst (?pq m)) = h \<and>
               tex_width (snd (?pq m)) = w \<and> tex_height (snd (?pq m)) = h" for m
    unfolding J_def using jacobi_sizes [of "pressure_write F" "pressure_read F"] P Q by simp
  have step: "fst (?pq (Suc m)) =
      pass (snd (?pq m)) (Vec2 (1 / real w) (1 / real h))
        (pressureShader (fst (?pq m)) (divergence_field F))" for m
    by (simp add: J_def jacobi_def ts)
  have cell: "texel (fst (?pq (Suc m))) (int i) (int j) =
       Vec4 ((vx (texel (fst (?pq m)) (int i - 1) (int j)) +
              vx (texel (fst (?pq m)) (int i + 1) (int j)) +
              vx (texel (fst (?pq m)) (int i) (int j - 1)) +
              vx (texel (fst (?pq m)) (int i) (int j + 1)) -
              vx (texel (divergence_field F) (int i) (int j))) * (1/4)) 0 0 1"
    if "i < w" "j < h" for m i j
  proof -
    from sizes [of m] have s: "tex_width (fst (?pq m)) = w" "tex_height (fst (?pq m)) = h"
      "tex_width (snd (?pq m)) = w" "tex_height (snd (?pq m)) = h" by blast+
    show ?thesis
      unfolding step by (rule pressure_cell [OF pos s D that])
  qed
  have snd_eq: "snd (?pq (Suc m)) = fst (?pq m)" for m
    by (simp add: J_def jacobi_def)
  have wr: "snd (?pq n) = (if n = 0 then pressure_write F else fst (?pq (n - 1)))"
    using snd_eq [of "n - 1"] by (cases n) simp_all
  have rd: "pressure_read (fields_of (pressure_loop 0 st)) = fst (?pq n)"
    and wr': "pressure_write (fields_of (pressure_loop 0 st)) = snd (?pq n)"
    unfolding loop fields_pressure_iterations [OF wf blend]
    by (simp_all add: J_def F_def)
  have sw: "pressure (pressure_loop 0 st) = (swap ^^ n) (pressure st)"
    unfolding loop by (rule pressure_iterations_pressure)
  show ?thesis
    unfolding Let_def F_def [symmetric] J_def [symmetric] read_fbo_def
      w_def [symmetric] h_def [symmetric]
  proof (intro conjI allI impI)
    show "pressure_read (fields_of (pressure_loop 0 st)) = fst (?pq n)" by (rule rd)
    show "pressure_write (fields_of (pressure_loop 0 st)) =
            (if n = 0 then pressure_write F else fst (?pq (n - 1)))"
      unfolding wr' by (rule wr)
    show "pressure (pressure_loop 0 st) = (swap ^^ n) (pressure st)" by (rule sw)
  next
    fix m i j
    assume "i < w" "j < h"
    then show "texel (fst (?pq (Suc m))) (int i) (int j) =
       Vec4 ((vx (texel (fst (?pq m)) (int i - 1) (int j)) +
              vx (texel (fst (?pq m)) (int i + 1) (int j)) +
              vx (texel (fst (?pq m)) (int i) (int j - 1)) +
              vx (texel (fst (?pq m)) (int i) (int j + 1)) -
              vx (texel (divergence_field F) (int i) (int j))) * (1/4)) 0 0 1"
      by (rule cell)
  qed
qed

theorem pressure_loop_jacobi_witness:
  "wf_sim small_sim \<and> \<not> gl_blend (gl small_sim) \<and>
   PRESSURE_ITERATIONS (config small_sim) = real 20 \<and>
   pressure_read (fields_of (pressure_loop 0 small_sim)) =
     fst ((jacobi (simTexelSize small_sim) (divergence_field (fields_of small_sim)) ^^ 20)
            (pressure_read (fields_of small_sim), pressure_write (fields_of small_sim))) \<and>
   pressure (pressure_loop 0 small_sim) = (swap ^^ 20) (pressure small_sim)"
  using pressure_loop_jacobi [of small_sim 20]
  by (simp add: Let_def small_sim_wf small_sim_config default_config_def)

section \<open>Splats\<close>

text \<open>
  Claim C6.  In a well-formed state, on a canvas of positive height and with a splat radius
  that is not zero, a splat at a point with the impulse \<open>(dx1, dy1)\<close> adds to every velocity
  cell the impulse times \<open>exp(-dot(p, p) / radius)\<close> (the function \<open>gaussian\<close>, \<open>p\<close> being the
  offset of the cell's centre from the point); a second splat at that point with the impulse
  \<open>(dx2, dy2)\<close> adds its impulse times the same factor on top; and the two splats leave the
  same velocity texels as one splat at that point with the impulse \<open>(dx1 + dx2, dy1 + dy2)\<close>,
  exactly (the arithmetic is over the reals), whatever the colours are and whether or not
  blending is enabled.
\<close>

theorem splat_additive:
  assumes wf: "wf_sim st"
    and nz: "SPLAT_RADIUS (config st) \<noteq> 0" "0 < canvas_height st"
    and k: "k < fbo_width (read_fbo (velocity st)) * fbo_height (read_fbo (velocity st))"
  shows "(let e = gaussian st (fbo_width (read_fbo (velocity st))) (fbo_height (read_fbo (velocity st))) x y k;
              base = texels (velocity_read (fields_of st)) ! k;
              once = splat x y dx1 dy1 c1 st;
              twice = splat x y dx2 dy2 c2 once;
              summed = splat x y (dx1 + dx2) (dy1 + dy2) c3 st
          in texels (velocity_read (fields_of once)) ! k =
               Vec4 (vx base + e * dx1) (vy base + e * dy1) (vz base) 1 \<and>
             texels (velocity_read (fields_of twice)) ! k =
               Vec4 (vx base + e * dx1 + e * dx2) (vy base + e * dy1 + e * dy2) (vz base) 1 \<and>
             texels (velocity_read (fields_of twice)) = texels (velocity_read (fields_of summed)))"
proof -
  let ?w = "fbo_width (read_fbo (velocity st))" and ?h = "fbo_height (read_fbo (velocity st))"
  let ?once = "splat x y dx1 dy1 c1 st"
  let ?twice = "splat x y dx2 dy2 c2 ?once"
  let ?summed = "splat x y (dx1 + dx2) (dy1 + dy2) c3 st"
  have wf1: "wf_sim ?once" by (rule fields_splat(2) [OF wf])
  note sz = splat_velocity_size [OF wf, of x y dx1 dy1 c1]
  have cell1: "texels (velocity_read (fields_of ?once)) ! j =
      Vec4 (vx (texels (velocity_read (fields_of st)) ! j) + gaussian st ?w ?h x y j * dx1)
           (vy (texels (velocity_read (fields_of st)) ! j) + gaussian st ?w ?h x y j * dy1)
           (vz (texels (velocity_read (fields_of st)) ! j)) 1" if "j < ?w * ?h" for j
    using splat_velocity_cell [OF wf that, of x y dx1 dy1 c1] by (simp add: Let_def)
  have cell2: "texels (velocity_read (fields_of ?twice)) ! j =
      Vec4 (vx (texels (velocity_read (fields_of st)) ! j) + gaussian st ?w ?h x y j * dx1
              + gaussian st ?w ?h x y j * dx2)
           (vy (texels (velocity_read (fields_of st)) ! j) + gaussian st ?w ?h x y j * dy1
              + gaussian st ?w ?h x y j * dy2)
           (vz (texels (velocity_read (fields_of st)) ! j)) 1" if "j < ?w * ?h" for j
  proof -
    from that have j1: "j < fbo_width (read_fbo (velocity ?once)) * fbo_height (read_fbo (velocity ?once))"
      by (simp add: sz)
    show ?thesis
      using splat_velocity_cell [OF wf1 j1, of x y dx2 dy2 c2]
      by (simp add: Let_def sz cell1 [OF that] gaussian_splat)
  qed
  have cell12: "texels (velocity_read (fields_of ?summed)) ! j =
      Vec4 (vx (texels (velocity_read (fields_of st)) ! j) + gaussian st ?w ?h x y j * (dx1 + dx2))
           (vy (texels (velocity_read (fields_of st)) ! j) + gaussian st ?w ?h x y j * (dy1 + dy2))
           (vz (texels (velocity_read (fields_of st)) ! j)) 1" if "j < ?w * ?h" for j
    using splat_velocity_cell [OF wf that, of x y "dx1 + dx2" "dy1 + dy2" c3] by (simp add: Let_def)
  have eq: "texels (velocity_read (fields_of ?twice)) = texels (velocity_read (fields_of ?summed))"
  proof (rule nth_equalityI)
    show "length (texels (velocity_read (fields_of ?twice))) =
          length (texels (velocity_read (fields_of ?summed)))"
      by (simp add: splat_velocity_size(3) [OF wf1] splat_velocity_size(3) [OF wf] sz)
  next
    fix j assume "j < length (texels (velocity_read (fields_of ?twice)))"
    then have j: "j < ?w * ?h" by (simp add: splat_velocity_size(3) [OF wf1] sz)
    show "texels (velocity_read (fields_of ?twice)) ! j = texels (velocity_read (fields_of ?summed)) ! j"
      by (simp add: cell2 [OF j] cell12 [OF j] algebra_simps)
  qed
  show ?thesis
    unfolding Let_def using cell1 [OF k] cell2 [OF k] eq by simp
qed

theorem splat_additive_witness:
  "wf_sim small_sim \<and> SPLAT_RADIUS (config small_sim) \<noteq> 0 \<and>
   0 < canvas_height small_sim \<and>
   0 < fbo_width (read_fbo (velocity small_sim)) * fbo_height (read_fbo (velocity small_sim)) \<and>
   texels (velocity_read (fields_of
      (splat 0 (1/2) 1 0 \<lparr> col_r = 1, col_g = 0, col_b = 0 \<rparr> small_sim))) ! 0 =
     Vec4 (exp (- (1/4))) 0 0 1 \<and>
   texels (velocity_read (fields_of
      (splat 0 (1/2) 2 3 \<lparr> col_r = 0, col_g = 1, col_b = 0 \<rparr>
        (splat 0 (1/2) 1 0 \<lparr> col_r = 1, col_g = 0, col_b = 0 \<rparr> small_sim)))) ! 0 =
     Vec4 (exp (- (1/4)) + exp (- (1/4)) * 2) (exp (- (1/4)) * 3) 0 1 \<and>
   texels (velocity_read (fields_of
      (splat 0 (1/2) 2 3 \<lparr> col_r = 0, col_g = 1, col_b = 0 \<rparr>
        (splat 0 (1/2) 1 0 \<lparr> col_r = 1, col_g = 0, col_b = 0 \<rparr> small_sim)))) =
   texels (velocity_read (fields_of
      (splat 0 (1/2) 3 3 \<lparr> col_r = 0, col_g = 0, col_b = 1 \<rparr> small_sim)))"
proof -
  have k: "0 < fbo_width (read_fbo (velocity small_sim)) * fbo_height (read_fbo (velocity small_sim))"
    by (simp add: small_sim_fields)
  have nz: "SPLAT_RADIUS (config small_sim) \<noteq> 0" "0 < canvas_height small_sim"
    by (simp_all add: small_sim_radius)
  note t = splat_additive [OF small_sim_wf nz k, of 0 "1/2" 1 0 "\<lparr> col_r = 1, col_g = 0, col_b = 0 \<rparr>"
      2 3 "\<lparr> col_r = 0, col_g = 1, col_b = 0 \<rparr>" "\<lparr> col_r = 0, col_g = 0, col_b = 1 \<rparr>",
      unfolded Let_def]
  have g: "gaussian small_sim 2 1 0 (1/2) 0 = exp (- (1/4))"
    by (simp add: gaussian_def small_sim_radius)
  have b: "texels (velocity_read (fields_of small_sim)) ! 0 = Vec4 0 0 0 0"
    by (simp add: small_sim_fields blank_2_1)
  from t [THEN conjunct1] t [THEN conjunct2, THEN conjunct1] t [THEN conjunct2, THEN conjunct2]
    small_sim_wf nz k
  show ?thesis
    unfolding small_sim_fields(7,8) g b by simp
qed

text \<open>
  Claim C7, as the code has it.  A splat adds to every velocity cell the impulse, and to
  every dye cell the colour, times \<open>exp(-dot(p, p) / radius)\<close>, where \<open>p\<close> is the offset of
  the cell's centre from the splat point with its x-component multiplied by the aspect
  ratio of the canvas, and where the radius is the configured splat radius divided by 100:
  the aspect ratio does not enter the radius.
\<close>

theorem splat_falloff:
  assumes wf: "wf_sim st"
    and nz: "SPLAT_RADIUS (config st) \<noteq> 0" "0 < canvas_height st"
    and k: "k < fbo_width (read_fbo (velocity st)) * fbo_height (read_fbo (velocity st))"
    and m: "m < fbo_width (read_fbo (density st)) * fbo_height (read_fbo (density st))"
  shows "texels (velocity_read (fields_of (splat x y dx dy color st))) ! k =
     (let e = gaussian st (fbo_width (read_fbo (velocity st))) (fbo_height (read_fbo (velocity st))) x y k;
          base = texels (velocity_read (fields_of st)) ! k
      in Vec4 (vx base + e * dx) (vy base + e * dy) (vz base) 1) \<and>
   texels (dye_read (fields_of (splat x y dx dy color st))) ! m =
     (let e = gaussian st (fbo_width (read_fbo (density st))) (fbo_height (read_fbo (density st))) x y m;
          base = texels (dye_read (fields_of st)) ! m
      in Vec4 (vx base + e * col_r color) (vy base + e * col_g color) (vz base + e * col_b color) 1)"
proof -
  note vt = velocity_textures [OF wf]
  note dt = dye_textures [OF wf]
  from k have k': "k < tex_width (velocity_read (fields_of st)) * tex_height (velocity_read (fields_of st))"
    by (simp add: vt(5,6))
  from m have m': "m < tex_width (dye_read (fields_of st)) * tex_height (dye_read (fields_of st))"
    by (simp add: dt(5,6))
  show ?thesis
    unfolding fields_splat(1) [OF wf] Let_def
    using splat_cell [OF vt(1) vt(3,4) k'] splat_cell [OF dt(1) dt(3,4) m']
    by (simp add: Let_def gaussian_def vt(5,6) dt(5,6) centre_def v2_sub_def)
qed

theorem splat_falloff_witness:
  "wf_sim small_sim \<and> SPLAT_RADIUS (config small_sim) \<noteq> 0 \<and> 0 < canvas_height small_sim \<and>
   0 < fbo_width (read_fbo (velocity small_sim)) * fbo_height (read_fbo (velocity small_sim)) \<and>
   1 < fbo_width (read_fbo (density small_sim)) * fbo_height (read_fbo (density small_sim)) \<and>
   texels (velocity_read (fields_of (splat 0 (1/2) 1 0 \<lparr> col_r = 1, col_g = 0, col_b = 0 \<rparr> small_sim))) ! 0
     = Vec4 (exp (- (1/4))) 0 0 1 \<and>
   texels (dye_read (fields_of (splat 0 (1/2) 1 0 \<lparr> col_r = 1, col_g = 0, col_b = 0 \<rparr> small_sim))) ! 1
     = Vec4 (exp (- (9/4))) 0 0 1"
  using splat_falloff [of small_sim 0 1 0 "1/2" 1 0 "\<lparr> col_r = 1, col_g = 0, col_b = 0 \<rparr>"]
  by (simp add: small_sim_wf small_sim_radius small_sim_fields blank_2_1 gaussian_def Let_def)

text \<open>
  The claim as stated fails: on the canvas of aspect ratio 2 the velocity a splat leaves is
  not the one the splat program computes when its radius is the configured one scaled by the
  aspect ratio (\<open>correctRadius\<close>, which \<open>splat\<close> does not call).
\<close>

theorem splat_radius_not_scaled_by_aspect:
  "texels (velocity_read (fields_of (splat 0 (1/2) 1 0 \<lparr> col_r = 1, col_g = 0, col_b = 0 \<rparr> small_sim)))
   \<noteq> texels (pass (velocity_write (fields_of small_sim)) (Vec2 0 0)
        (splatShader (velocity_read (fields_of small_sim))
           (real (canvas_width small_sim) / real (canvas_height small_sim))
           (Vec3 1 0 0) (Vec2 0 (1/2))
           (correctRadius (canvas_width small_sim) (canvas_height small_sim)
              (SPLAT_RADIUS (config small_sim) / 100))))"
proof
  assume eq: "texels (velocity_read (fields_of (splat 0 (1/2) 1 0 \<lparr> col_r = 1, col_g = 0, col_b = 0 \<rparr> small_sim)))
   = texels (pass (velocity_write (fields_of small_sim)) (Vec2 0 0)
        (splatShader (velocity_read (fields_of small_sim))
           (real (canvas_width small_sim) / real (canvas_height small_sim))
           (Vec3 1 0 0) (Vec2 0 (1/2))
           (correctRadius (canvas_width small_sim) (canvas_height small_sim)
              (SPLAT_RADIUS (config small_sim) / 100))))"
  have l: "texels (velocity_read (fields_of (splat 0 (1/2) 1 0 \<lparr> col_r = 1, col_g = 0, col_b = 0 \<rparr> small_sim))) ! 0
             = Vec4 (exp (- (1/4) / 1)) 0 0 1"
    using small_velocity_cell0 [of 1]
    by (simp add: fields_splat(1) [OF small_sim_wf] Let_def small_sim_radius)
  have r: "texels (pass (velocity_write (fields_of small_sim)) (Vec2 0 0)
        (splatShader (velocity_read (fields_of small_sim))
           (real (canvas_width small_sim) / real (canvas_height small_sim))
           (Vec3 1 0 0) (Vec2 0 (1/2))
           (correctRadius (canvas_width small_sim) (canvas_height small_sim)
              (SPLAT_RADIUS (config small_sim) / 100)))) ! 0
             = Vec4 (exp (- (1/4) / 2)) 0 0 1"
    using small_velocity_cell0 [of 2]
    by (simp add: correctRadius_def Let_def small_sim_radius)
  from eq l r have "exp (- (1/4) / 1 :: real) = exp (- (1/4) / 2)" by simp
  then show False by simp
qed

section \<open>One frame\<close>

text \<open>
  Claim C4.  One call of \<open>update\<close> applies the pending input and then runs the stages of
  \<open>step\<close> in the order curl, vorticity confinement, advection of the velocity, advection
  of the dye, divergence, the pressure iterations, gradient subtraction: each stage reads
  what the stages before it have written (the vorticity stage reads the curl, the dye is
  advected by the advected velocity, the divergence is the one of the advected velocity,
  the gradient of the iterated pressure is subtracted from the advected velocity).  The
  time step the stages receive is the elapsed time in seconds when that is at most
  \<open>0.016\<close>, and \<open>0.016\<close> when it is more.
\<close>

theorem update_runs_the_stages_in_order:
  assumes wf: "wf_sim st"
  shows "(let dt = (time - lastTime st) / 1000;
              clamped = (if 16/1000 < dt then 16/1000 else dt);
              s = applyInputs (st\<lparr> lastTime := time \<rparr>);
              F = fields_of s; ts = simTexelSize s; c = config s;
              cu = pass (curl_field F) ts (curlShader (velocity_read F));
              v1 = pass (velocity_write F) ts
                     (vorticityShader (velocity_read F) cu (CURL c) clamped);
              v2 = pass (velocity_read F) ts
                     (advectionShader v1 v1 ts clamped (VELOCITY_DISSIPATION c));
              d1 = pass (dye_write F) ts
                     (advectionShader v2 (dye_read F) ts clamped (DENSITY_DISSIPATION c));
              dv = pass (divergence_field F) ts (divergenceShader v2);
              pq = (jacobi ts dv ^^ nat \<lceil>PRESSURE_ITERATIONS c\<rceil>)
                     (pressure_read F, pressure_write F);
              v3 = pass v1 ts (gradientSubtractShader (fst pq) v2)
          in fields_of (update time st) =
               \<lparr> velocity_read = v3, velocity_write = v2, dye_read = d1, dye_write = dye_read F,
                 pressure_read = fst pq, pressure_write = snd pq, divergence_field = dv,
                 curl_field = cu \<rparr>)"
proof -
  define s where "s = applyInputs (st\<lparr> lastTime := time \<rparr>)"
  have ws: "wf_sim s"
    unfolding s_def using wf by (intro wf_sim_applyInputs) simp
  have m: "min ((time - lastTime st) / 1000) (16/1000) =
             (if 16/1000 < (time - lastTime st) / 1000 then 16/1000 else (time - lastTime st) / 1000)"
    by (simp add: min_def)
  have u: "update time st = render (step (min ((time - lastTime st) / 1000) (16/1000)) s)"
    by (simp add: update_def Let_def s_def)
  show ?thesis
    unfolding u fields_render fields_step [OF ws] m s_def [symmetric] Let_def ..
qed

theorem update_runs_the_stages_in_order_witness:
  "wf_sim small_sim \<and>
   curl_field (fields_of (update 1000 small_sim)) =
     pass (curl_field (fields_of small_sim)) (simTexelSize small_sim)
       (curlShader (velocity_read (fields_of small_sim))) \<and>
   velocity_write (fields_of (update 1000 small_sim)) =
     pass (velocity_read (fields_of small_sim)) (simTexelSize small_sim)
       (advectionShader
          (pass (velocity_write (fields_of small_sim)) (simTexelSize small_sim)
             (vorticityShader (velocity_read (fields_of small_sim))
                (pass (curl_field (fields_of small_sim)) (simTexelSize small_sim)
                   (curlShader (velocity_read (fields_of small_sim)))) 4 (16/1000)))
          (pass (velocity_write (fields_of small_sim)) (simTexelSize small_sim)
             (vorticityShader (velocity_read (fields_of small_sim))
                (pass (curl_field (fields_of small_sim)) (simTexelSize small_sim)
                   (curlShader (velocity_read (fields_of small_sim)))) 4 (16/1000)))
          (simTexelSize small_sim) (16/1000) (98/100))"
  using update_runs_the_stages_in_order [of small_sim 1000]
  by (simp add: small_sim_wf Let_def applyInputs_def small_sim_config default_config_def)

section \<open>Dissipation\<close>



section \<open>Divergence after the projection\<close>

text \<open>
  Claim C1, as the code has it.  The projection does not always lower the mean absolute
  divergence.  In a well-formed state with blending disabled, when the divergence of the
  velocity is the same at every cell and the pressure the iterations start from is the
  same at every cell, every Jacobi iterate is the same at every cell, the gradient that is
  subtracted is zero, and the projection, for any number of iterations, leaves the x and y
  components of the velocity, its divergence and the mean absolute divergence as they were.
\<close>

theorem projection_keeps_uniform_divergence:
  assumes "wf_sim st" and "\<not> gl_blend (gl st)"
    and "list_all (\<lambda>x. x = c) (divergence_of st)"
    and "uniform_x a (pressure_read (fields_of st))"
  shows "map v4_xy (texels (velocity_read (fields_of (project st)))) =
           map v4_xy (texels (velocity_read (fields_of st))) \<and>
         divergence_of (project st) = divergence_of st \<and>
         mean_abs (divergence_of (project st)) = mean_abs (divergence_of st)"
  using project_uniform [OF assms] by simp

theorem projection_keeps_uniform_divergence_witness:
  "wf_sim pushed_sim \<and> \<not> gl_blend (gl pushed_sim) \<and>
   list_all (\<lambda>x. x = (exp (- (9/4)) - exp (- (1/4))) / 2) (divergence_of pushed_sim) \<and>
   uniform_x 0 (pressure_read (fields_of pushed_sim)) \<and>
   divergence_of (project pushed_sim) =
     [(exp (- (9/4)) - exp (- (1/4))) / 2, (exp (- (9/4)) - exp (- (1/4))) / 2]"
  using projection_keeps_uniform_divergence [of pushed_sim "(exp (- (9/4)) - exp (- (1/4))) / 2" 0]
  by (simp add: pushed_sim_facts pushed_divergence uniform_x_blank)

text \<open>
  The claim as stated fails: after a splat at the left edge of the 2 by 1 grid the
  divergence is the same non-zero number in both cells, the pressure is zero, the
  configuration asks for 20 iterations, and the mean absolute divergence after the
  projection is not smaller than before.
\<close>

theorem projection_does_not_reduce_divergence:
  "wf_sim pushed_sim \<and> \<not> gl_blend (gl pushed_sim) \<and>
   1 \<le> PRESSURE_ITERATIONS (config pushed_sim) \<and>
   0 < mean_abs (divergence_of pushed_sim) \<and>
   \<not> mean_abs (divergence_of (project pushed_sim)) < mean_abs (divergence_of pushed_sim)"
proof -
  have u: "list_all (\<lambda>x. x = (exp (- (9/4)) - exp (- (1/4))) / 2) (divergence_of pushed_sim)"
    by (simp add: pushed_divergence)
  have p: "uniform_x 0 (pressure_read (fields_of pushed_sim))"
    by (simp add: pushed_sim_facts uniform_x_blank)
  have same: "divergence_of (project pushed_sim) = divergence_of pushed_sim"
    by (rule project_uniform(2) [OF pushed_sim_facts(1,2) u p])
  have "exp (- (9/4) :: real) < exp (- (1/4))" by simp
  then have "0 < mean_abs (divergence_of pushed_sim)"
    by (simp add: pushed_divergence mean_abs_def)
  then show ?thesis
    by (simp add: same pushed_sim_facts)
qed

end
